theory Spec2Isabelle
  imports Complex_Main "HOL-Library.AList"
begin

section \<open>JavaScript values\<close>

text \<open>
  The compiler computes with JavaScript numbers, which are IEEE 754 double-precision
  numbers. A finite number is modelled by the real number it stands for, next to NaN and
  the two infinities. The result of an addition, a multiplication, a division and of
  reading a decimal numeral is the exact result rounded to the nearest double, a tie going
  to the double with an even significand; a result beyond the largest double is an
  infinity. The sign of zero is not modelled: there is one zero.
\<close>

datatype jsnum = Num real | NaN | PInf | NInf

text \<open>The binary exponent of a positive real: \<open>e\<close> with \<open>2^e \<le> x < 2^(e+1)\<close>.\<close>

function log2_up :: "real \<Rightarrow> int" where
  "log2_up x = (if 2 \<le> x then log2_up (x / 2) + 1 else 0)"
  by auto
termination
proof (relation "measure (\<lambda>x. nat \<lfloor>x\<rfloor>)")
  show "wf (measure (\<lambda>x::real. nat \<lfloor>x\<rfloor>))" by simp
next
  fix x :: real
  assume x: "2 \<le> x"
  have "\<lfloor>x / 2\<rfloor> \<le> \<lfloor>x - 1\<rfloor>" using x by (intro floor_mono) simp
  moreover have "2 \<le> \<lfloor>x\<rfloor>" using x by (simp add: le_floor_iff)
  ultimately show "(x / 2, x) \<in> measure (\<lambda>x. nat \<lfloor>x\<rfloor>)" by simp
qed

function log2_down :: "real \<Rightarrow> int" where
  "log2_down x = (if 0 < x \<and> x < 1 then log2_down (2 * x) - 1 else 0)"
  by auto
termination
proof (relation "measure (\<lambda>x. nat \<lceil>1 / x\<rceil>)")
  show "wf (measure (\<lambda>x::real. nat \<lceil>1 / x\<rceil>))" by simp
next
  fix x :: real
  assume x: "0 < x \<and> x < 1"
  then have y: "1 < 1 / x" by simp
  then have c: "2 \<le> \<lceil>1 / x\<rceil>" by (simp add: le_ceiling_iff)
  have "1 / (2 * x) = (1 / x) / 2" by simp
  also have "\<dots> \<le> of_int \<lceil>1 / x\<rceil> / 2" by (simp add: divide_right_mono)
  also have "\<dots> \<le> of_int (\<lceil>1 / x\<rceil> - 1)" using c by simp
  finally have "\<lceil>1 / (2 * x)\<rceil> \<le> \<lceil>1 / x\<rceil> - 1" by (rule ceiling_le)
  then show "(2 * x, x) \<in> measure (\<lambda>x. nat \<lceil>1 / x\<rceil>)" using c x by simp
qed

declare log2_up.simps [simp del] log2_down.simps [simp del]

definition binary_exponent :: "real \<Rightarrow> int" where
  "binary_exponent a = (if 1 \<le> a then log2_up a else log2_down a)"

definition pow2 :: "int \<Rightarrow> real" where
  "pow2 k = (if 0 \<le> k then 2 ^ nat k else 1 / 2 ^ nat (- k))"

text \<open>
  The distance between the doubles around a positive real \<open>a\<close>: the significand has
  53 bits, and below \<open>2^-1022\<close> the doubles are evenly spaced.
\<close>

definition ulp_of :: "real \<Rightarrow> real" where
  "ulp_of a = pow2 (max (binary_exponent a) (- 1022) - 52)"

definition nearest_even :: "real \<Rightarrow> int \<Rightarrow> int" where
  "nearest_even q f =
     (if q - of_int f < 1 / 2 then f
      else if 1 / 2 < q - of_int f then f + 1
      else if even f then f else f + 1)"

definition round_half_even :: "real \<Rightarrow> int" where
  "round_half_even q = nearest_even q \<lfloor>q\<rfloor>"

definition fl_round :: "real \<Rightarrow> real \<Rightarrow> real" where
  "fl_round a u = of_int (round_half_even (a / u)) * u"

definition fl_pack :: "bool \<Rightarrow> real \<Rightarrow> jsnum" where
  "fl_pack pos r =
     (if 2 ^ 1024 \<le> r then (if pos then PInf else NInf) else Num (if pos then r else - r))"

text \<open>The double nearest to a real number.\<close>

definition fl :: "real \<Rightarrow> jsnum" where
  "fl x = (if x = 0 then Num 0 else fl_pack (0 < x) (fl_round \<bar>x\<bar> (ulp_of \<bar>x\<bar>)))"

fun js_add :: "jsnum \<Rightarrow> jsnum \<Rightarrow> jsnum" where
  "js_add (Num a) (Num b) = fl (a + b)"
| "js_add NaN _ = NaN"
| "js_add _ NaN = NaN"
| "js_add PInf NInf = NaN"
| "js_add NInf PInf = NaN"
| "js_add PInf _ = PInf"
| "js_add _ PInf = PInf"
| "js_add NInf _ = NInf"
| "js_add _ NInf = NInf"

fun js_neg :: "jsnum \<Rightarrow> jsnum" where
  "js_neg (Num a) = Num (- a)"
| "js_neg NaN = NaN"
| "js_neg PInf = NInf"
| "js_neg NInf = PInf"

definition js_sub :: "jsnum \<Rightarrow> jsnum \<Rightarrow> jsnum" where
  "js_sub a b = js_add a (js_neg b)"

text \<open>The sign of a number that is not NaN: \<open>-1\<close>, \<open>0\<close> or \<open>1\<close>.\<close>

fun js_sign :: "jsnum \<Rightarrow> real" where
  "js_sign (Num a) = sgn a"
| "js_sign PInf = 1"
| "js_sign NInf = - 1"
| "js_sign NaN = 0"

definition inf_of_sign :: "real \<Rightarrow> jsnum" where
  "inf_of_sign s = (if s = 0 then NaN else if 0 < s then PInf else NInf)"

fun js_mul :: "jsnum \<Rightarrow> jsnum \<Rightarrow> jsnum" where
  "js_mul (Num a) (Num b) = fl (a * b)"
| "js_mul NaN _ = NaN"
| "js_mul _ NaN = NaN"
| "js_mul a b = inf_of_sign (js_sign a * js_sign b)"

text \<open>
  Division: a finite nonzero number over zero is an infinity, zero over zero and an
  infinity over an infinity are NaN, a finite number over an infinity is zero.
\<close>

fun js_div :: "jsnum \<Rightarrow> jsnum \<Rightarrow> jsnum" where
  "js_div (Num a) (Num b) = (if b = 0 then inf_of_sign (sgn a) else fl (a / b))"
| "js_div NaN _ = NaN"
| "js_div _ NaN = NaN"
| "js_div (Num a) _ = Num 0"
| "js_div a (Num b) = inf_of_sign (js_sign a * (if b < 0 then - 1 else 1))"
| "js_div _ _ = NaN"

text \<open>The comparisons \<open><\<close>, \<open>>\<close> and \<open>==\<close>: all false when an operand is NaN.\<close>

fun js_lt :: "jsnum \<Rightarrow> jsnum \<Rightarrow> bool" where
  "js_lt (Num a) (Num b) = (a < b)"
| "js_lt NaN _ = False"
| "js_lt _ NaN = False"
| "js_lt NInf b = (b \<noteq> NInf)"
| "js_lt a PInf = (a \<noteq> PInf)"
| "js_lt _ _ = False"

definition js_gt :: "jsnum \<Rightarrow> jsnum \<Rightarrow> bool" where
  "js_gt a b = js_lt b a"

definition js_eq :: "jsnum \<Rightarrow> jsnum \<Rightarrow> bool" where
  "js_eq a b = (a \<noteq> NaN \<and> a = b)"

text \<open>A number in a condition: false for zero and NaN.\<close>

definition js_truthy :: "jsnum \<Rightarrow> bool" where
  "js_truthy a = (a \<noteq> NaN \<and> a \<noteq> Num 0)"

text \<open>\<open>Math.max\<close> of two numbers, \<open>Math.abs\<close>, \<open>Math.floor\<close> and \<open>Math.round\<close>
  (which rounds a half upwards). Their results are exact: the floor of a double is a
  double.\<close>

definition js_max :: "jsnum \<Rightarrow> jsnum \<Rightarrow> jsnum" where
  "js_max a b = (if a = NaN \<or> b = NaN then NaN else if js_lt a b then b else a)"

fun js_abs :: "jsnum \<Rightarrow> jsnum" where
  "js_abs (Num a) = Num \<bar>a\<bar>"
| "js_abs NaN = NaN"
| "js_abs _ = PInf"

fun js_floor :: "jsnum \<Rightarrow> jsnum" where
  "js_floor (Num a) = Num (of_int \<lfloor>a\<rfloor>)"
| "js_floor a = a"

fun js_round :: "jsnum \<Rightarrow> jsnum" where
  "js_round (Num a) = Num (of_int \<lfloor>a + 1 / 2\<rfloor>)"
| "js_round a = a"

text \<open>
  A value of the program: a number, a string or a boolean. Style values are numbers and
  strings; the options of a query may hold a boolean.
\<close>

datatype jsval = NumV jsnum | StrV string | BoolV bool

fun val_truthy :: "jsval option \<Rightarrow> bool" where
  "val_truthy None = False"
| "val_truthy (Some (NumV n)) = js_truthy n"
| "val_truthy (Some (StrV s)) = (s \<noteq> [])"
| "val_truthy (Some (BoolV b)) = b"

section \<open>Timing expressions (util.ts)\<close>

text \<open>
  Strings are lists of 8-bit characters, read as code units below 256. The character
  classes of the two regular expressions of \<open>util.ts\<close>:
  \<open>[\.\d]\<close>, \<open>\s\<close>, \<open>[-a-z]\<close> under the flag \<open>i\<close>, and \<open>.\<close>
  (anything but a line terminator).
\<close>

definition is_digit :: "char \<Rightarrow> bool" where
  "is_digit c = (c \<in> set ''0123456789'')"

definition is_numch :: "char \<Rightarrow> bool" where
  "is_numch c = (c = CHR ''.'' \<or> is_digit c)"

definition is_space :: "char \<Rightarrow> bool" where
  "is_space c = (c \<in> set [CHR '' '', CHR 0x09, CHR 0x0A, CHR 0x0B, CHR 0x0C, CHR 0x0D, CHR 0xA0])"

definition is_lower :: "char \<Rightarrow> bool" where
  "is_lower c = (c \<in> set ''abcdefghijklmnopqrstuvwxyz'')"

definition is_upper :: "char \<Rightarrow> bool" where
  "is_upper c = (c \<in> set ''ABCDEFGHIJKLMNOPQRSTUVWXYZ'')"

definition is_easingch :: "char \<Rightarrow> bool" where
  "is_easingch c = (c = CHR ''-'' \<or> is_lower c \<or> is_upper c)"

definition is_dot :: "char \<Rightarrow> bool" where
  "is_dot c = (c \<noteq> CHR 0x0A \<and> c \<noteq> CHR 0x0D)"

text \<open>
  \<open>parseFloat\<close> on the strings that \<open>(-?[\.\d]+)\<close> can capture: an optional sign,
  digits, and an optional point followed by digits; the longest such prefix is read, and
  a prefix without any digit is NaN. The result is the double nearest to the value of the
  decimal numeral.
\<close>

definition digit_val :: "char \<Rightarrow> nat" where
  "digit_val c = (of_char c - 48)"

fun dec_val :: "nat \<Rightarrow> string \<Rightarrow> nat" where
  "dec_val acc [] = acc"
| "dec_val acc (c # cs) = dec_val (10 * acc + digit_val c) cs"

definition decimal_value :: "string \<Rightarrow> string \<Rightarrow> real" where
  "decimal_value ip fp = of_nat (dec_val 0 ip) + of_nat (dec_val 0 fp) / 10 ^ length fp"

definition parseFloat :: "string \<Rightarrow> jsnum" where
  "parseFloat s =
     (let neg = (s \<noteq> [] \<and> hd s = CHR ''-'');
          r = (if neg then tl s else s);
          ip = takeWhile is_digit r;
          r1 = dropWhile is_digit r;
          fp = (case r1 of c # t \<Rightarrow> (if c = CHR ''.'' then takeWhile is_digit t else []) | [] \<Rightarrow> [])
      in if ip = [] \<and> fp = [] then NaN
         else fl (if neg then - decimal_value ip fp else decimal_value ip fp))"

definition ONE_SECOND :: jsnum where
  "ONE_SECOND = Num 1000"

definition convertTimeValueToMS :: "jsnum \<Rightarrow> string \<Rightarrow> jsnum" where
  "convertTimeValueToMS v unit = (if unit = ''s'' then js_mul v ONE_SECOND else v)"

text \<open>\<open>(-?[\.\d]+)\<close> at the start of a string: the captured text and the rest.\<close>

definition match_number :: "string \<Rightarrow> (string \<times> string) option" where
  "match_number s =
     (let neg = (s \<noteq> [] \<and> hd s = CHR ''-'');
          r = (if neg then tl s else s);
          ds = takeWhile is_numch r
      in if ds = [] then None
         else Some ((if neg then ''-'' else []) @ ds, dropWhile is_numch r))"

text \<open>\<open>(m?s)\<close> at the start of a string; \<open>ci\<close> is the flag \<open>i\<close>.\<close>

definition match_unit :: "bool \<Rightarrow> string \<Rightarrow> (string \<times> string) option" where
  "match_unit ci s =
     (let is_m = (\<lambda>c. c = CHR ''m'' \<or> (ci \<and> c = CHR ''M''));
          is_s = (\<lambda>c. c = CHR ''s'' \<or> (ci \<and> c = CHR ''S''))
      in case s of
           [] \<Rightarrow> None
         | c # t \<Rightarrow>
             if is_m c then
               (case t of [] \<Rightarrow> None
                | d # u \<Rightarrow> if is_s d then Some ([c, d], u) else None)
             else if is_s c then Some ([c], t)
             else None)"

definition match_time :: "bool \<Rightarrow> string \<Rightarrow> (string \<times> string \<times> string) option" where
  "match_time ci s =
     (case match_number s of
        None \<Rightarrow> None
      | Some (n, r) \<Rightarrow>
          (case match_unit ci r of
             None \<Rightarrow> None
           | Some (u, r') \<Rightarrow> Some (n, u, r')))"

text \<open>\<open>\s+\<close> at the start of a string: the rest after the longest run of white space.\<close>

definition match_spaces :: "string \<Rightarrow> string option" where
  "match_spaces s = (if takeWhile is_space s = [] then None else Some (dropWhile is_space s))"

text \<open>
  \<open>([-a-z]+(?:\(.+?\))?)$\<close>: a run of easing characters up to the end of the string,
  or followed by a parenthesis that closes at the end of the string around at least one
  character, none of them a line terminator.
\<close>

definition match_easing_end :: "string \<Rightarrow> string option" where
  "match_easing_end s =
     (let name = takeWhile is_easingch s; r = dropWhile is_easingch s
      in if name = [] then None
         else if r = [] then Some s
         else if hd r = CHR ''('' \<and> 3 \<le> length r \<and> last r = CHR '')''
                 \<and> list_all is_dot (butlast (tl r)) then Some s
         else None)"

text \<open>
  The regular expression of \<open>parseTimeExpression\<close>,
  \<open>/^(-?[\.\d]+)(m?s)(?:\s+(-?[\.\d]+)(m?s))?(?:\s+([-a-z]+(?:\(.+?\))?))?$/i\<close>.
  The result holds the five groups; groups 3, 4 and 5 are undefined (\<open>None\<close>) when their
  optional part did not take part in the match.
\<close>

record time_match =
  m1 :: string
  m2 :: string
  m3 :: "string option"
  m4 :: "string option"
  m5 :: "string option"

definition match_tail :: "string \<Rightarrow> string option option" where
  "match_tail r =
     (if r = [] then Some None
      else case match_spaces r of
             None \<Rightarrow> None
           | Some r' \<Rightarrow> (case match_easing_end r' of None \<Rightarrow> None | Some e \<Rightarrow> Some (Some e)))"

definition regex_match :: "string \<Rightarrow> time_match option" where
  "regex_match expr =
     (case match_time True expr of
        None \<Rightarrow> None
      | Some (n1, u1, r) \<Rightarrow>
          (case (case match_spaces r of None \<Rightarrow> None | Some r' \<Rightarrow> match_time True r') of
             Some (n2, u2, r2) \<Rightarrow>
               (case match_tail r2 of
                  None \<Rightarrow> None
                | Some e \<Rightarrow> Some \<lparr>m1 = n1, m2 = u1, m3 = Some n2, m4 = Some u2, m5 = e\<rparr>)
           | None \<Rightarrow>
               (case match_tail r of
                  None \<Rightarrow> None
                | Some e \<Rightarrow> Some \<lparr>m1 = n1, m2 = u1, m3 = None, m4 = None, m5 = e\<rparr>)))"

record AnimateTimings =
  duration :: jsnum
  delay :: jsnum
  easing :: "string option"

text \<open>The argument of \<open>parseTimeExpression\<close> is a string or a number; the argument of
  \<open>resolveTiming\<close> may also be timings already resolved.\<close>

datatype time_exp = TStr string | TNum jsnum

datatype timing_arg = TExp time_exp | TObj AnimateTimings

definition invalid_timing_msg :: "string \<Rightarrow> string" where
  "invalid_timing_msg shown = ''The provided timing value \"'' @ shown @ ''\" is invalid.''"

definition negative_duration_msg :: string where
  "negative_duration_msg = ''Duration values below 0 are not allowed for this animation step.''"

definition negative_delay_msg :: string where
  "negative_delay_msg = ''Delay values below 0 are not allowed for this animation step.''"

text \<open>
  \<open>parseTimeExpression\<close>. The error list is passed in and returned. \<open>shown\<close> is the
  text of the expression inside the message: the string itself, or the numeral of a number.
  \<open>errors.splice(startIndex, 0, msg)\<close> puts the general message before the messages
  pushed for the negative components.
\<close>

definition check_negative ::
  "string \<Rightarrow> bool \<Rightarrow> AnimateTimings \<Rightarrow> string list \<Rightarrow> string list" where
  "check_negative shown allowNegativeValues t errors =
     (if \<not> allowNegativeValues then
        (let e1 = (if js_lt (duration t) (Num 0) then [negative_duration_msg] else []);
             e2 = (if js_lt (delay t) (Num 0) then [negative_delay_msg] else []);
             containsErrors = (e1 @ e2 \<noteq> [])
         in errors @ (if containsErrors then [invalid_timing_msg shown] else []) @ e1 @ e2)
      else errors)"

definition parseTimeExpression ::
  "(jsnum \<Rightarrow> string) \<Rightarrow> time_exp \<Rightarrow> string list \<Rightarrow> bool \<Rightarrow> AnimateTimings \<times> string list" where
  "parseTimeExpression numberToString expr errors allowNegativeValues =
     (case expr of
        TStr s \<Rightarrow>
          (case regex_match s of
             None \<Rightarrow>
               (\<lparr>duration = Num 0, delay = Num 0, easing = Some []\<rparr>,
                errors @ [invalid_timing_msg s])
           | Some matches \<Rightarrow>
               (let dur = convertTimeValueToMS (parseFloat (m1 matches)) (m2 matches);
                    del = (case m3 matches of
                             Some delayMatch \<Rightarrow>
                               convertTimeValueToMS (js_floor (parseFloat delayMatch))
                                 (case m4 matches of Some u \<Rightarrow> u | None \<Rightarrow> [])
                           | None \<Rightarrow> Num 0);
                    eas = (case m5 matches of Some easingVal \<Rightarrow> easingVal | None \<Rightarrow> []);
                    t = \<lparr>duration = dur, delay = del, easing = Some eas\<rparr>
                in (t, check_negative s allowNegativeValues t errors)))
      | TNum n \<Rightarrow>
          (let t = \<lparr>duration = n, delay = Num 0, easing = Some []\<rparr>
           in (t, check_negative (numberToString n) allowNegativeValues t errors)))"

text \<open>
  \<open>resolveTiming\<close>: timings that already have a \<open>duration\<close> are returned as they
  are; a string or a number is parsed.
\<close>

definition resolveTiming ::
  "(jsnum \<Rightarrow> string) \<Rightarrow> timing_arg \<Rightarrow> string list \<Rightarrow> bool \<Rightarrow> AnimateTimings \<times> string list" where
  "resolveTiming numberToString timings errors allowNegativeValues =
     (case timings of
        TObj t \<Rightarrow> (t, errors)
      | TExp expr \<Rightarrow> parseTimeExpression numberToString expr errors allowNegativeValues)"

text \<open>
  \<open>resolveTimingValue\<close>, with the regular expression \<open>/^(-?[\.\d]+)(m?s)/\<close>: no flag
  and no anchor at the end. A boolean has no method \<open>match\<close>: the call throws.
\<close>

datatype error = TypeError | NotModelled

definition resolveTimingValue :: "jsval \<Rightarrow> error + jsnum" where
  "resolveTimingValue v =
     (case v of
        NumV n \<Rightarrow> Inr n
      | StrV s \<Rightarrow>
          (case match_time False s of
             None \<Rightarrow> Inr (Num 0)
           | Some (n, u, r) \<Rightarrow> Inr (convertTimeValueToMS (parseFloat n) u))
      | BoolV b \<Rightarrow> Inl TypeError)"

section \<open>Style maps\<close>

text \<open>
  A style map is a JavaScript object with string keys: the list of its own properties in
  the order they were added (the order of \<open>Object.keys\<close> for keys that are not array
  indices). Writing an existing key keeps its place. An object created by
  \<open>Object.create(proto)\<close> reads a key it does not own from \<open>proto\<close>.
\<close>

type_synonym StyleData = "(string \<times> jsval) list"

definition AUTO_STYLE :: jsval where
  "AUTO_STYLE = StrV ''*''"

text \<open>Modelled from the spec: the sentinel \<open>PRE\<close>, whose declaration is not among the
  sources; its text is \<open>!\<close>.\<close>

definition PRE_STYLE :: jsval where
  "PRE_STYLE = StrV ''!''"

definition obj_set :: "string \<Rightarrow> 'v \<Rightarrow> (string \<times> 'v) list \<Rightarrow> (string \<times> 'v) list" where
  "obj_set k v obj = AList.update k v obj"

definition obj_keys :: "(string \<times> 'v) list \<Rightarrow> string list" where
  "obj_keys obj = map fst obj"

definition hasOwnProperty :: "(string \<times> 'v) list \<Rightarrow> string \<Rightarrow> bool" where
  "hasOwnProperty obj k = (map_of obj k \<noteq> None)"

definition proto_get :: "StyleData \<Rightarrow> StyleData \<Rightarrow> string \<Rightarrow> jsval option" where
  "proto_get own proto k = (case map_of own k of Some v \<Rightarrow> Some v | None \<Rightarrow> map_of proto k)"

text \<open>\<open>copyObj(obj, destination)\<close>: the own properties of \<open>obj\<close>, in order.\<close>

definition copyObj :: "StyleData \<Rightarrow> StyleData \<Rightarrow> StyleData" where
  "copyObj obj destination = fold (\<lambda>(k, v) d. obj_set k v d) obj destination"

text \<open>
  \<open>copyStyles(styles, readPrototype, destination)\<close> for an object \<open>own\<close> created from
  \<open>proto\<close>: with \<open>readPrototype\<close> the loop \<open>for (prop in styles)\<close> visits the own
  keys and then the keys of the prototype that the object does not own.
\<close>

definition copyStyles :: "StyleData \<Rightarrow> StyleData \<Rightarrow> bool \<Rightarrow> StyleData \<Rightarrow> StyleData" where
  "copyStyles own proto readPrototype destination =
     (if readPrototype then
        copyObj (own @ filter (\<lambda>(k, v). \<not> hasOwnProperty own k) proto) destination
      else copyObj own destination)"

section \<open>Interpolation of variables (util.ts)\<close>

definition is_word :: "char \<Rightarrow> bool" where
  "is_word c = (is_lower c \<or> is_upper c \<or> is_digit c \<or> c = CHR ''_'')"

definition is_advch :: "char \<Rightarrow> bool" where
  "is_advch c = (c = CHR ''-'' \<or> is_word c \<or> is_space c)"

fun val_toString :: "(jsnum \<Rightarrow> string) \<Rightarrow> jsval \<Rightarrow> string" where
  "val_toString numberToString (NumV n) = numberToString n"
| "val_toString numberToString (StrV s) = s"
| "val_toString numberToString (BoolV b) = (if b then ''true'' else ''false'')"

text \<open>
  The callback of \<open>matchAndReplace\<close> for a matched text \<open>e\<close> whose variable is
  \<open>varName\<close>: the text of the local, or an error and the empty string.
\<close>

definition replace_var ::
  "(jsnum \<Rightarrow> string) \<Rightarrow> StyleData \<Rightarrow> string \<Rightarrow> string \<Rightarrow> string list \<Rightarrow> string \<times> string list" where
  "replace_var numberToString locals e varName errors =
     (case map_of locals varName of
        None \<Rightarrow> ([], errors @ [''Please provide a value for the animation variable '' @ e])
      | Some localVal \<Rightarrow> (val_toString numberToString localVal, errors))"

text \<open>\<open>str.replace(/\$\w+/g, ...)\<close>: matches are found from left to right and the
  inserted text is not searched again.\<close>

function replace_simple ::
  "(jsnum \<Rightarrow> string) \<Rightarrow> StyleData \<Rightarrow> string \<Rightarrow> string list \<Rightarrow> string \<times> string list" where
  "replace_simple numberToString locals [] errors = ([], errors)"
| "replace_simple numberToString locals (c # r) errors =
     (if c = CHR ''$'' \<and> takeWhile is_word r \<noteq> [] then
        (let name = takeWhile is_word r;
             (rep, errors1) = replace_var numberToString locals (c # name) (CHR ''$'' # name) errors;
             (rest, errors2) = replace_simple numberToString locals (dropWhile is_word r) errors1
         in (rep @ rest, errors2))
      else
        (let (rest, errors1) = replace_simple numberToString locals r errors
         in (c # rest, errors1)))"
  by pat_completeness auto
termination
  by (relation "measure (\<lambda>(f, l, s, e). length s)")
     (auto simp: length_dropWhile_le less_Suc_eq_le)

text \<open>\<open>str.replace(/\$\{([-\w\s]+)\}/g, ...)\<close>.\<close>

function replace_advanced ::
  "(jsnum \<Rightarrow> string) \<Rightarrow> StyleData \<Rightarrow> string \<Rightarrow> string list \<Rightarrow> string \<times> string list" where
  "replace_advanced numberToString locals [] errors = ([], errors)"
| "replace_advanced numberToString locals (c # r) errors =
     (let name = takeWhile is_advch (tl r); after = dropWhile is_advch (tl r)
      in if c = CHR ''$'' \<and> r \<noteq> [] \<and> hd r = CHR ''{'' \<and> name \<noteq> []
            \<and> after \<noteq> [] \<and> hd after = CHR ''}'' then
           (let (rep, errors1) =
                  replace_var numberToString locals (''${'' @ name @ ''}'') (CHR ''$'' # name) errors;
                (rest, errors2) = replace_advanced numberToString locals (tl after) errors1
            in (rep @ rest, errors2))
         else
           (let (rest, errors1) = replace_advanced numberToString locals r errors
            in (c # rest, errors1)))"
  by pat_completeness auto
termination
proof (relation "measure (\<lambda>(f, l, s, e). length s)")
  show "wf (measure (\<lambda>(f, l, s, e). length s))"
    by simp
next
  fix numberToString :: "jsnum \<Rightarrow> string" and locals :: StyleData and c :: char
    and r :: string and errors errors1 :: "string list" and name after :: string
    and x :: "string \<times> string list" and rep :: string
  assume "after = dropWhile is_advch (tl r)"
  then have "length (tl after) \<le> length r"
    by (metis diff_le_self le_trans length_dropWhile_le length_tl)
  then show "((numberToString, locals, tl after, errors1), numberToString, locals, c # r, errors)
      \<in> measure (\<lambda>(f, l, s, e). length s)"
    by simp
next
  fix numberToString :: "jsnum \<Rightarrow> string" and locals :: StyleData and c :: char
    and r :: string and errors :: "string list"
  show "((numberToString, locals, r, errors), numberToString, locals, c # r, errors)
      \<in> measure (\<lambda>(f, l, s, e). length s)"
    by simp
qed

text \<open>
  \<open>interpolateLocals\<close>. The numeral of a number and the text of a boolean hold no
  \<open>$\<close>, so that no expression matches and the value is returned as it is.
\<close>

definition interpolateLocals ::
  "(jsnum \<Rightarrow> string) \<Rightarrow> jsval \<Rightarrow> StyleData \<Rightarrow> string list \<Rightarrow> jsval \<times> string list" where
  "interpolateLocals numberToString v locals errors =
     (case v of
        StrV original \<Rightarrow>
          (let (str1, errors1) = replace_simple numberToString locals original errors;
               (str2, errors2) = replace_advanced numberToString locals str1 errors1
           in (if str2 = original then v else StrV str2, errors2))
      | _ \<Rightarrow> (v, errors))"

section \<open>TimelineBuilder\<close>

text \<open>
  Elements are opaque handles, compared by identity. \<open>StyleAtTime\<close> is an entry of
  the style summary.
\<close>

type_synonym element = nat

record StyleAtTime =
  sat_time :: jsnum
  sat_value :: jsval

text \<open>
  The keyframes of a builder are the entries of its \<open>Map\<close> from a time to a style
  object, in the order they were added. Each of these objects is created by
  \<open>Object.create(this._backFill, {})\<close> when its key is added, and a key is never removed:
  the key names the object. \<open>_previousKeyframe\<close>, \<open>_currentKeyframe\<close> and
  \<open>_currentEmptyStepKeyframe\<close> refer to such an object by its key; \<open>None\<close> is the
  object \<open>{}\<close> that the first two fields are initialised with (which belongs to no
  map), and \<open>null\<close> for the third.

  \<open>_globalTimelineStyles\<close> is the \<open>_localTimelineStyles\<close> object of some builder
  (the first one created for the element): the field holds the position of that builder
  in the list of all builders.
\<close>

record TimelineBuilder =
  tb_element :: element
  startTime :: jsnum
  tb_duration :: jsnum
  tb_easing :: "string option"
  previousKeyframe :: "jsnum option"
  currentKeyframe :: "jsnum option"
  keyframes :: "(jsnum \<times> StyleData) list"
  styleSummary :: "(string \<times> StyleAtTime) list"
  localTimelineStyles :: StyleData
  globalTimelineStyles :: nat
  backFill :: StyleData
  currentEmptyStepKeyframe :: "jsnum option"

text \<open>Modelled from the spec: the Compiled Instruction and \<open>createTimelineInstruction\<close>,
  whose file is not among the sources; the fields are the arguments of the calls.\<close>

record AnimationTimelineInstruction =
  i_element :: element
  i_keyframes :: "StyleData list"
  i_preStyleProps :: "string list"
  i_postStyleProps :: "string list"
  i_duration :: jsnum
  i_delay :: jsnum
  i_easing :: "string option"
  i_subTimeline :: bool

definition createTimelineInstruction ::
  "element \<Rightarrow> StyleData list \<Rightarrow> string list \<Rightarrow> string list \<Rightarrow> jsnum \<Rightarrow> jsnum
     \<Rightarrow> string option \<Rightarrow> bool \<Rightarrow> AnimationTimelineInstruction" where
  "createTimelineInstruction el kfs preProps postProps dur del eas subTimeline =
     \<lparr>i_element = el, i_keyframes = kfs, i_preStyleProps = preProps,
      i_postStyleProps = postProps, i_duration = dur, i_delay = del, i_easing = eas,
      i_subTimeline = subTimeline\<rparr>"

text \<open>Writing an own property of the keyframe with key \<open>k\<close>; a write to the object
  outside the map is not seen by anything.\<close>

definition kf_update ::
  "jsnum option \<Rightarrow> (StyleData \<Rightarrow> StyleData) \<Rightarrow> TimelineBuilder \<Rightarrow> TimelineBuilder" where
  "kf_update ref f tb =
     (case ref of
        None \<Rightarrow> tb
      | Some k \<Rightarrow> tb\<lparr>keyframes := map (\<lambda>(t, kf). if t = k then (t, f kf) else (t, kf)) (keyframes tb)\<rparr>)"

definition kf_own :: "jsnum option \<Rightarrow> TimelineBuilder \<Rightarrow> StyleData" where
  "kf_own ref tb =
     (case ref of
        None \<Rightarrow> []
      | Some k \<Rightarrow> (case map_of (keyframes tb) k of Some kf \<Rightarrow> kf | None \<Rightarrow> []))"

definition containsAnimation :: "TimelineBuilder \<Rightarrow> bool" where
  "containsAnimation tb = (length (keyframes tb) > 1)"

definition getCurrentStyleProperties :: "TimelineBuilder \<Rightarrow> string list" where
  "getCurrentStyleProperties tb = obj_keys (kf_own (currentKeyframe tb) tb)"

definition currentTime :: "TimelineBuilder \<Rightarrow> jsnum" where
  "currentTime tb = js_add (startTime tb) (tb_duration tb)"

definition loadKeyframe :: "TimelineBuilder \<Rightarrow> TimelineBuilder" where
  "loadKeyframe tb =
     (let tb1 = tb\<lparr>previousKeyframe := currentKeyframe tb\<rparr>
      in case map_of (keyframes tb1) (tb_duration tb1) of
           Some kf \<Rightarrow> tb1\<lparr>currentKeyframe := Some (tb_duration tb1)\<rparr>
         | None \<Rightarrow> tb1\<lparr>currentKeyframe := Some (tb_duration tb1),
                         keyframes := keyframes tb1 @ [(tb_duration tb1, [])]\<rparr>)"

definition forwardFrame :: "TimelineBuilder \<Rightarrow> TimelineBuilder" where
  "forwardFrame tb = loadKeyframe (tb\<lparr>tb_duration := js_add (tb_duration tb) (Num 1)\<rparr>)"

definition forwardTime :: "jsnum \<Rightarrow> TimelineBuilder \<Rightarrow> TimelineBuilder" where
  "forwardTime t tb = loadKeyframe (tb\<lparr>tb_duration := t\<rparr>)"

definition tb_delayNextStep :: "jsnum \<Rightarrow> TimelineBuilder \<Rightarrow> TimelineBuilder" where
  "tb_delayNextStep d tb =
     (if js_eq (tb_duration tb) (Num 0) then tb\<lparr>startTime := js_add (startTime tb) d\<rparr>
      else forwardTime (js_add (currentTime tb) d) tb)"

definition allowOnlyTimelineStyles :: "TimelineBuilder \<Rightarrow> bool" where
  "allowOnlyTimelineStyles tb =
     (case currentEmptyStepKeyframe tb of
        None \<Rightarrow> True
      | Some k \<Rightarrow> currentKeyframe tb \<noteq> Some k)"

definition snapshotCurrentStyles :: "TimelineBuilder \<Rightarrow> TimelineBuilder" where
  "snapshotCurrentStyles tb =
     kf_update (currentKeyframe tb) (copyStyles (localTimelineStyles tb) (backFill tb) False) tb"

text \<open>
  \<open>TimelineBuilder.buildKeyframes\<close>. The sets of properties keep the order of their
  first insertion. \<open>value == PRE_STYLE\<close> compares with a string: it holds for that
  string only.
\<close>

definition set_add :: "string \<Rightarrow> string list \<Rightarrow> string list" where
  "set_add x xs = (if x \<in> set xs then xs else xs @ [x])"

definition collect_props :: "StyleData \<Rightarrow> string list \<times> string list \<Rightarrow> string list \<times> string list" where
  "collect_props finalKeyframe acc =
     fold (\<lambda>(prop, v) (pre, post).
             if v = PRE_STYLE then (set_add prop pre, post)
             else if v = AUTO_STYLE then (pre, set_add prop post)
             else (pre, post))
          finalKeyframe acc"

definition final_keyframe :: "TimelineBuilder \<Rightarrow> StyleData \<Rightarrow> StyleData" where
  "final_keyframe tb keyframe = copyStyles keyframe (backFill tb) True []"

definition buildKeyframes :: "TimelineBuilder \<Rightarrow> AnimationTimelineInstruction" where
  "buildKeyframes tb =
     (let (preProps, postProps) =
            fold (\<lambda>(t, keyframe). collect_props (final_keyframe tb keyframe)) (keyframes tb) ([], []);
          finalKeyframes =
            map (\<lambda>(t, keyframe).
                   obj_set ''offset'' (NumV (js_div t (tb_duration tb))) (final_keyframe tb keyframe))
                (keyframes tb)
      in createTimelineInstruction (tb_element tb) finalKeyframes preProps postProps
           (tb_duration tb) (startTime tb) (tb_easing tb) False)"

section \<open>The builders of one compilation\<close>

text \<open>
  Every builder is pushed to the list \<open>timelines\<close> of its context as soon as it is
  constructed, and all contexts of a compilation share that list: the position of a
  builder in the list is its address. \<open>lookup\<close> is the map
  \<open>_elementTimelineStylesLookup\<close>, shared by the first builder and all its forks, from
  an element to the builder whose local styles are the global styles of the element.
  \<open>errors\<close> is the shared list of error messages.
\<close>

record Store =
  timelines :: "TimelineBuilder list"
  lookup :: "(element \<times> nat) list"
  errors :: "string list"

definition upd_tl :: "nat \<Rightarrow> (TimelineBuilder \<Rightarrow> TimelineBuilder) \<Rightarrow> Store \<Rightarrow> Store" where
  "upd_tl i f s = s\<lparr>timelines := (timelines s)[i := f (timelines s ! i)]\<rparr>"

text \<open>The constructor of \<open>TimelineBuilder\<close>, with the shared lookup; the result is the
  address of the new builder.\<close>

definition new_TimelineBuilder :: "element \<Rightarrow> jsnum \<Rightarrow> Store \<Rightarrow> nat \<times> Store" where
  "new_TimelineBuilder el start s =
     (let i = length (timelines s);
          known = map_of (lookup s) el;
          tb = loadKeyframe
                 \<lparr>tb_element = el, startTime = start, tb_duration = Num 0, tb_easing = None,
                  previousKeyframe = None, currentKeyframe = None, keyframes = [],
                  styleSummary = [], localTimelineStyles = [],
                  globalTimelineStyles = (case known of Some g \<Rightarrow> g | None \<Rightarrow> i),
                  backFill = [], currentEmptyStepKeyframe = None\<rparr>
      in (i, s\<lparr>timelines := timelines s @ [tb],
               lookup := (case known of Some g \<Rightarrow> lookup s | None \<Rightarrow> lookup s @ [(el, i)])\<rparr>))"

text \<open>\<open>fork(element, currentTime = 0)\<close>: a time that is zero or NaN stands for the current
  time of the builder forked from.\<close>

definition fork :: "nat \<Rightarrow> element \<Rightarrow> jsnum \<Rightarrow> Store \<Rightarrow> nat \<times> Store" where
  "fork i el t s =
     new_TimelineBuilder el (if js_truthy t then t else currentTime (timelines s ! i)) s"

text \<open>The global styles of builder \<open>i\<close>: the own properties of the object and its prototype.\<close>

definition global_own :: "Store \<Rightarrow> nat \<Rightarrow> StyleData" where
  "global_own s i = localTimelineStyles (timelines s ! globalTimelineStyles (timelines s ! i))"

definition global_get :: "Store \<Rightarrow> nat \<Rightarrow> string \<Rightarrow> jsval option" where
  "global_get s i prop =
     proto_get (global_own s i) (backFill (timelines s ! globalTimelineStyles (timelines s ! i))) prop"

definition local_get :: "TimelineBuilder \<Rightarrow> string \<Rightarrow> jsval option" where
  "local_get tb prop = proto_get (localTimelineStyles tb) (backFill tb) prop"

definition updateStyle :: "nat \<Rightarrow> string \<Rightarrow> jsval \<Rightarrow> Store \<Rightarrow> Store" where
  "updateStyle i prop v s =
     (if prop \<noteq> ''easing'' then
        (let s1 = upd_tl i (\<lambda>tb. tb\<lparr>localTimelineStyles := obj_set prop v (localTimelineStyles tb)\<rparr>) s;
             s2 = upd_tl (globalTimelineStyles (timelines s1 ! i))
                    (\<lambda>tb. tb\<lparr>localTimelineStyles := obj_set prop v (localTimelineStyles tb)\<rparr>) s1
         in upd_tl i (\<lambda>tb. tb\<lparr>styleSummary :=
                 obj_set prop \<lparr>sat_time = currentTime tb, sat_value = v\<rparr> (styleSummary tb)\<rparr>) s2)
      else s)"

text \<open>A token of the input of \<open>setStyles\<close>: the string \<open>*\<close> or a style map.\<close>

datatype StyleToken = Star | Styles StyleData

definition flattenStyles :: "StyleToken list \<Rightarrow> StyleData \<Rightarrow> StyleData" where
  "flattenStyles input allStyles =
     fold (\<lambda>token styles.
             case token of
               Star \<Rightarrow> fold (\<lambda>prop st. obj_set prop AUTO_STYLE st) (obj_keys allStyles) styles
             | Styles m \<Rightarrow> copyObj m styles)
          input []"

text \<open>The parts of \<open>setStyles\<close>: the empty step, the loop over the flattened styles,
  the loop that completes the current keyframe from the local styles, and the easing
  written into the previous keyframe.\<close>

definition empty_step_prop :: "nat \<Rightarrow> string \<Rightarrow> Store \<Rightarrow> Store" where
  "empty_step_prop i prop s =
     (let g = global_get s i prop;
          fill = (case g of Some v \<Rightarrow> if val_truthy g then v else AUTO_STYLE | None \<Rightarrow> AUTO_STYLE)
      in upd_tl i (\<lambda>tb. kf_update (currentKeyframe tb) (obj_set prop AUTO_STYLE)
                          (tb\<lparr>backFill := obj_set prop fill (backFill tb)\<rparr>)) s)"

definition set_style_prop ::
  "(jsnum \<Rightarrow> string) \<Rightarrow> nat \<Rightarrow> StyleData option \<Rightarrow> string \<times> jsval \<Rightarrow> Store \<Rightarrow> Store" where
  "set_style_prop numberToString i locals pv s =
     (let prop = fst pv;
          (val, errs) = (case locals of
                           Some l \<Rightarrow> interpolateLocals numberToString (snd pv) l (errors s)
                         | None \<Rightarrow> (snd pv, errors s));
          s1 = upd_tl i (\<lambda>tb. kf_update (currentKeyframe tb) (obj_set prop val) tb) (s\<lparr>errors := errs\<rparr>);
          s2 = (if \<not> val_truthy (local_get (timelines s1 ! i) prop) then
                  upd_tl i (\<lambda>tb. tb\<lparr>backFill := obj_set prop
                      (if hasOwnProperty (global_own s1 i) prop
                       then (case global_get s1 i prop of Some v \<Rightarrow> v | None \<Rightarrow> AUTO_STYLE)
                       else AUTO_STYLE) (backFill tb)\<rparr>) s1
                else s1)
      in updateStyle i prop val s2)"

definition complete_current :: "TimelineBuilder \<Rightarrow> TimelineBuilder" where
  "complete_current tb =
     fold (\<lambda>(prop, v) t.
             if \<not> hasOwnProperty (kf_own (currentKeyframe t) t) prop
             then kf_update (currentKeyframe t) (obj_set prop v) t else t)
          (localTimelineStyles tb) tb"

definition set_previous_easing :: "nat \<Rightarrow> string option \<Rightarrow> Store \<Rightarrow> Store" where
  "set_previous_easing i eas s =
     (case eas of
        Some e \<Rightarrow>
          if e \<noteq> [] then
            upd_tl i (\<lambda>tb. kf_update (previousKeyframe tb) (obj_set ''easing'' (StrV e)) tb) s
          else s
      | None \<Rightarrow> s)"

definition setStyles ::
  "(jsnum \<Rightarrow> string) \<Rightarrow> nat \<Rightarrow> StyleToken list \<Rightarrow> string option \<Rightarrow> bool \<Rightarrow> StyleData option
     \<Rightarrow> Store \<Rightarrow> Store" where
  "setStyles numberToString i input eas treatAsEmptyStep locals s =
     (let s0 = set_previous_easing i eas s
      in if treatAsEmptyStep then
           upd_tl i (\<lambda>tb. tb\<lparr>currentEmptyStepKeyframe := currentKeyframe tb\<rparr>)
             (fold (empty_step_prop i) (obj_keys (global_own s0 i)) s0)
         else
           upd_tl i complete_current
             (fold (set_style_prop numberToString i locals) (flattenStyles input (global_own s0 i)) s0))"

definition mergeTimelineCollectedStyles :: "nat \<Rightarrow> nat \<Rightarrow> Store \<Rightarrow> Store" where
  "mergeTimelineCollectedStyles i j s =
     fold (\<lambda>prop st.
             case map_of (styleSummary (timelines st ! j)) prop of
               None \<Rightarrow> st
             | Some details1 \<Rightarrow>
                 (case map_of (styleSummary (timelines st ! i)) prop of
                    None \<Rightarrow> updateStyle i prop (sat_value details1) st
                  | Some details0 \<Rightarrow>
                      if js_gt (sat_time details1) (sat_time details0)
                      then updateStyle i prop (sat_value details1) st else st))
          (obj_keys (styleSummary (timelines s ! j))) s"

section \<open>SubTimelineBuilder\<close>

text \<open>
  \<open>roundOffset(offset, decimalPoints = 3)\<close>: \<open>Math.round(offset * mult) / mult\<close>
  with \<open>mult = Math.pow(10, decimalPoints - 1)\<close>.
\<close>

definition roundOffset :: "jsnum \<Rightarrow> int \<Rightarrow> jsnum" where
  "roundOffset offset decimalPoints =
     (let mult = fl (if 1 \<le> decimalPoints then 10 ^ nat (decimalPoints - 1)
                     else 1 / 10 ^ nat (1 - decimalPoints))
      in js_div (js_round (js_mul offset mult)) mult)"

text \<open>
  The fields that \<open>SubTimelineBuilder\<close> adds to a builder are the ones its
  \<open>buildKeyframes\<close> reads. The keyframes are plain objects.
\<close>

record SubTimelineBuilder =
  sub_element :: element
  sub_keyframes :: "StyleData list"
  sub_preStyleProps :: "string list"
  sub_postStyleProps :: "string list"
  timings :: AnimateTimings
  stretchStartingKeyframe :: bool

text \<open>
  \<open>kf['offset'] as number\<close>: a missing offset is \<open>undefined\<close>, which is NaN in the
  arithmetic that follows. An offset that is a string or a boolean is outside the declared
  type and its coercion is not modelled.
\<close>

definition offset_of :: "StyleData \<Rightarrow> error + jsnum" where
  "offset_of kf =
     (case map_of kf ''offset'' of
        None \<Rightarrow> Inr NaN
      | Some (NumV n) \<Rightarrow> Inr n
      | Some _ \<Rightarrow> Inl NotModelled)"

definition warp_keyframe :: "jsnum \<Rightarrow> jsnum \<Rightarrow> StyleData \<Rightarrow> error + StyleData" where
  "warp_keyframe del dur keyframe =
     (let kf = copyObj keyframe [];
          totalTime = js_add dur del
      in case offset_of kf of
           Inl e \<Rightarrow> Inl e
         | Inr oldOffset \<Rightarrow>
             (let timeAtKeyframe = js_add del (js_mul oldOffset dur)
              in Inr (obj_set ''offset'' (NumV (roundOffset (js_div timeAtKeyframe totalTime) 3)) kf)))"

fun warp_keyframes :: "jsnum \<Rightarrow> jsnum \<Rightarrow> StyleData list \<Rightarrow> error + StyleData list" where
  "warp_keyframes del dur [] = Inr []"
| "warp_keyframes del dur (kf # kfs) =
     (case warp_keyframe del dur kf of
        Inl e \<Rightarrow> Inl e
      | Inr w \<Rightarrow> (case warp_keyframes del dur kfs of Inl e \<Rightarrow> Inl e | Inr ws \<Rightarrow> Inr (w # ws)))"

text \<open>\<open>SubTimelineBuilder.buildKeyframes\<close>. Without a first keyframe
  \<open>copyStyles(keyframes[0], false)\<close> throws.\<close>

definition sub_buildKeyframes :: "SubTimelineBuilder \<Rightarrow> error + AnimationTimelineInstruction" where
  "sub_buildKeyframes b =
     (let del = delay (timings b); dur = duration (timings b)
      in if stretchStartingKeyframe b \<and> js_truthy del then
           (case sub_keyframes b of
              [] \<Rightarrow> Inl TypeError
            | first # rest \<Rightarrow>
                (let totalTime = js_add dur del;
                     startingGap = js_div del totalTime;
                     newFirstKeyframe = obj_set ''offset'' (NumV (Num 0)) (copyObj first []);
                     oldFirstKeyframe =
                       obj_set ''offset'' (NumV (roundOffset startingGap 3)) (copyObj first [])
                 in case warp_keyframes del dur rest of
                      Inl e \<Rightarrow> Inl e
                    | Inr warped \<Rightarrow>
                        Inr (createTimelineInstruction (sub_element b)
                               (newFirstKeyframe # oldFirstKeyframe # warped)
                               (sub_preStyleProps b) (sub_postStyleProps b)
                               totalTime (Num 0) (Some []) True)))
         else
           Inr (createTimelineInstruction (sub_element b) (sub_keyframes b)
                  (sub_preStyleProps b) (sub_postStyleProps b) dur del (easing (timings b)) True))"

section \<open>AnimationTimelineContext\<close>

text \<open>
  \<open>previousNode\<close> is only tested with \<open>instanceof StyleAst\<close> and
  \<open>instanceof AnimateAst\<close>: the field holds the kind of the node.
  The fields \<open>errors\<close> and \<open>timelines\<close> are shared by all contexts and live in the
  store; \<open>parentContext\<close> is passed beside the context.
\<close>

datatype PreviousNode = DEFAULT_NOOP_PREVIOUS_NODE | PrevStyle | PrevAnimate | PrevOther

record Context =
  c_element :: element
  currentTimeline :: nat
  currentAnimateTimings :: "AnimateTimings option"
  previousNode :: PreviousNode
  subContextCount :: nat
  locals :: StyleData
  currentQueryIndex :: nat
  currentQueryTotal :: nat
  currentStaggerTime :: jsnum

definition updateLocals :: "StyleData option \<Rightarrow> bool \<Rightarrow> Context \<Rightarrow> error + Context" where
  "updateLocals newLocals skipIfExists ctx =
     (case newLocals of
        None \<Rightarrow> Inr ctx
      | Some nl \<Rightarrow>
          (let c1 = (if \<not> skipIfExists
                     then ctx\<lparr>locals := fold (\<lambda>(name, v) l. obj_set name v l) nl (locals ctx)\<rparr>
                     else ctx)
           in case (case map_of nl ''duration'' of
                      None \<Rightarrow> Inr c1
                    | Some v \<Rightarrow>
                        (case resolveTimingValue v of
                           Inl e \<Rightarrow> Inl e
                         | Inr n \<Rightarrow> Inr (c1\<lparr>locals := obj_set ''duration'' (NumV n) (locals c1)\<rparr>))) of
                Inl e \<Rightarrow> Inl e
              | Inr c2 \<Rightarrow>
                  (case map_of nl ''delay'' of
                     None \<Rightarrow> Inr c2
                   | Some v \<Rightarrow>
                       (case resolveTimingValue v of
                          Inl e \<Rightarrow> Inl e
                        | Inr n \<Rightarrow> Inr (c2\<lparr>locals := obj_set ''delay'' (NumV n) (locals c2)\<rparr>)))))"

definition copyLocals :: "Context \<Rightarrow> StyleData" where
  "copyLocals ctx = filter (\<lambda>(name, v). name \<noteq> [] \<and> hd name = CHR ''$'') (locals ctx)"

text \<open>\<open>newTime || 0\<close> for an optional time.\<close>

definition time_or_zero :: "jsnum option \<Rightarrow> jsnum" where
  "time_or_zero newTime = (case newTime of Some t \<Rightarrow> if js_truthy t then t else Num 0 | None \<Rightarrow> Num 0)"

text \<open>\<open>createSubContext\<close>: the new context, the context it was called on, and the store.\<close>

definition createSubContext ::
  "StyleData option \<Rightarrow> element option \<Rightarrow> jsnum option \<Rightarrow> Context \<Rightarrow> Store
     \<Rightarrow> error + (Context \<times> Context \<times> Store)" where
  "createSubContext newLocals el newTime ctx s =
     (let target = (case el of Some e \<Rightarrow> e | None \<Rightarrow> c_element ctx);
          (i, s1) = fork (currentTimeline ctx) target (time_or_zero newTime) s;
          context = \<lparr>c_element = target, currentTimeline = i,
                     currentAnimateTimings = currentAnimateTimings ctx,
                     previousNode = previousNode ctx, subContextCount = 0,
                     locals = copyLocals ctx,
                     currentQueryIndex = currentQueryIndex ctx,
                     currentQueryTotal = currentQueryTotal ctx,
                     currentStaggerTime = Num 0\<rparr>
      in case updateLocals newLocals False context of
           Inl e \<Rightarrow> Inl e
         | Inr context1 \<Rightarrow> Inr (context1, ctx\<lparr>subContextCount := Suc (subContextCount ctx)\<rparr>, s1))"

definition transformIntoNewTimeline :: "jsnum option \<Rightarrow> Context \<Rightarrow> Store \<Rightarrow> Context \<times> Store" where
  "transformIntoNewTimeline newTime ctx s =
     (let (i, s1) = fork (currentTimeline ctx) (c_element ctx) (time_or_zero newTime) s
      in (ctx\<lparr>previousNode := DEFAULT_NOOP_PREVIOUS_NODE, currentTimeline := i\<rparr>, s1))"

definition incrementTime :: "jsnum \<Rightarrow> Context \<Rightarrow> Store \<Rightarrow> Store" where
  "incrementTime t ctx s =
     upd_tl (currentTimeline ctx) (\<lambda>tb. forwardTime (js_add (tb_duration tb) t) tb) s"

definition delayNextStep :: "jsnum \<Rightarrow> Context \<Rightarrow> Store \<Rightarrow> Store" where
  "delayNextStep d ctx s =
     (if js_gt d (Num 0) then upd_tl (currentTimeline ctx) (tb_delayNextStep d) s else s)"

text \<open>
  The conversion of a string to a number, as a comparison with a number performs it: white
  space around the text is dropped; the empty text is 0; a hexadecimal, octal or binary
  literal has no sign; a decimal literal has an optional sign, digits with an optional
  point, and an optional exponent; \<open>Infinity\<close> may have a sign; anything else is NaN.
\<close>

definition trim_spaces :: "string \<Rightarrow> string" where
  "trim_spaces s = rev (dropWhile is_space (rev (dropWhile is_space s)))"

definition radix_digit :: "char \<Rightarrow> nat option" where
  "radix_digit c =
     (if is_digit c then Some (digit_val c)
      else if c \<in> set ''abcdef'' then Some (of_char c - 87)
      else if c \<in> set ''ABCDEF'' then Some (of_char c - 55)
      else None)"

fun radix_val :: "nat \<Rightarrow> nat \<Rightarrow> string \<Rightarrow> nat option" where
  "radix_val b acc [] = Some acc"
| "radix_val b acc (c # cs) =
     (case radix_digit c of
        None \<Rightarrow> None
      | Some d \<Rightarrow> if d < b then radix_val b (b * acc + d) cs else None)"

definition radix_literal :: "nat \<Rightarrow> string \<Rightarrow> jsnum" where
  "radix_literal b ds = (case radix_val b 0 ds of None \<Rightarrow> NaN | Some n \<Rightarrow> fl (of_nat n))"

definition exponent_part :: "string \<Rightarrow> int option" where
  "exponent_part r =
     (case r of
        [] \<Rightarrow> Some 0
      | c # t \<Rightarrow>
          if c = CHR ''e'' \<or> c = CHR ''E'' then
            (let neg = (t \<noteq> [] \<and> hd t = CHR ''-'');
                 ds = (if t \<noteq> [] \<and> (hd t = CHR ''+'' \<or> hd t = CHR ''-'') then tl t else t)
             in if ds \<noteq> [] \<and> list_all is_digit ds
                then Some (if neg then - int (dec_val 0 ds) else int (dec_val 0 ds))
                else None)
          else None)"

definition decimal_literal :: "string \<Rightarrow> jsnum" where
  "decimal_literal s =
     (let neg = (s \<noteq> [] \<and> hd s = CHR ''-'');
          r = (if s \<noteq> [] \<and> (hd s = CHR ''+'' \<or> hd s = CHR ''-'') then tl s else s);
          ip = takeWhile is_digit r;
          r1 = dropWhile is_digit r;
          point = (r1 \<noteq> [] \<and> hd r1 = CHR ''.'');
          fp = (if point then takeWhile is_digit (tl r1) else []);
          r2 = (if point then dropWhile is_digit (tl r1) else r1)
      in if r = ''Infinity'' then (if neg then NInf else PInf)
         else if ip = [] \<and> fp = [] then NaN
         else case exponent_part r2 of
                None \<Rightarrow> NaN
              | Some e \<Rightarrow>
                  fl ((if neg then - decimal_value ip fp else decimal_value ip fp)
                      * (if 0 \<le> e then 10 ^ nat e else 1 / 10 ^ nat (- e))))"

definition StringToNumber :: "string \<Rightarrow> jsnum" where
  "StringToNumber str =
     (let s = trim_spaces str
      in if s = [] then Num 0
         else if 2 < length s \<and> hd s = CHR ''0'' \<and> s ! 1 \<in> set ''xX'' then radix_literal 16 (drop 2 s)
         else if 2 < length s \<and> hd s = CHR ''0'' \<and> s ! 1 \<in> set ''oO'' then radix_literal 8 (drop 2 s)
         else if 2 < length s \<and> hd s = CHR ''0'' \<and> s ! 1 \<in> set ''bB'' then radix_literal 2 (drop 2 s)
         else decimal_literal s)"

text \<open>
  A delay read from the locals of a node, \<open>locals['delay'] as number\<close>, for the
  comparison \<open>delay > 0\<close> and the arithmetic of the builder: a missing entry is
  \<open>undefined\<close>, which compares like NaN; a boolean counts as 1 or 0; a string is
  compared as the number it converts to. When that number is greater than 0 the builder
  appends the string to its start time, which is a string from then on: this case is
  not modelled.
\<close>

definition delay_local :: "StyleData \<Rightarrow> error + jsnum" where
  "delay_local l =
     (case map_of l ''delay'' of
        None \<Rightarrow> Inr NaN
      | Some (NumV n) \<Rightarrow> Inr n
      | Some (BoolV b) \<Rightarrow> Inr (Num (if b then 1 else 0))
      | Some (StrV s) \<Rightarrow>
          if js_gt (StringToNumber s) (Num 0) then Inl NotModelled else Inr (StringToNumber s))"

section \<open>The animation AST\<close>

text \<open>
  Modelled from the spec: the AST of \<open>animation_ast.ts\<close>, which is not among the
  sources. The constructors carry the fields that the visitor reads. \<open>animate\<close> owns
  either a style or keyframes; a keyframe step has an offset, style tokens and an easing.
  Trigger, state and transition nodes are not visited. The node \<open>animateChild\<close>, which
  needs the map of instructions of the child elements, is not part of this development.
\<close>

datatype TimingAst = StaticTiming AnimateTimings | DynamicTiming string

datatype AnimateStyle =
    AStyle "StyleToken list" "string option" bool
  | AKeyframes "(jsnum \<times> StyleToken list \<times> string option) list"

datatype Ast =
    TriggerAst
  | StateAst
  | TransitionAst
  | SequenceAst "Ast list" "StyleData option"
  | GroupAst "Ast list" "StyleData option"
  | AnimateAst TimingAst AnimateStyle
  | StyleAst "StyleToken list" "string option" bool
  | ReferenceAst Ast "StyleData option"
  | AnimateRefAst Ast "StyleData option" "StyleData option"
  | QueryAst string string bool bool Ast "StyleData option"
  | StaggerAst AnimateTimings Ast

section \<open>AnimationTimelineBuilderVisitor\<close>

text \<open>
  The services of the environment: the text of a number (\<open>Number.prototype.toString\<close>)
  and the two queries of the DOM.
\<close>

record env =
  numberToString :: "jsnum \<Rightarrow> string"
  querySelectorAll :: "element \<Rightarrow> string \<Rightarrow> element list"
  querySelector :: "element \<Rightarrow> string \<Rightarrow> element option"

text \<open>The state of a visit: the context, its parent context, and the store.\<close>

type_synonym vstate = "Context \<times> Context option \<times> Store"

definition tl_of :: "Context \<Rightarrow> Store \<Rightarrow> TimelineBuilder" where
  "tl_of ctx s = timelines s ! currentTimeline ctx"

definition visitTiming :: "env \<Rightarrow> TimingAst \<Rightarrow> Context \<Rightarrow> Store \<Rightarrow> error + (AnimateTimings \<times> Store)" where
  "visitTiming e ast ctx s =
     (case ast of
        StaticTiming t \<Rightarrow> Inr (t, s)
      | DynamicTiming v \<Rightarrow>
          (let (strValue, errs) = interpolateLocals (numberToString e) (StrV v) (locals ctx) (errors s)
           in case strValue of
                StrV x \<Rightarrow>
                  (let (t, errs1) = resolveTiming (numberToString e) (TExp (TStr x)) errs False
                   in Inr (t, s\<lparr>errors := errs1\<rparr>))
              | NumV n \<Rightarrow>
                  (let (t, errs1) = resolveTiming (numberToString e) (TExp (TNum n)) errs False
                   in Inr (t, s\<lparr>errors := errs1\<rparr>))
              | BoolV b \<Rightarrow> Inl NotModelled))"

definition applyStyles ::
  "env \<Rightarrow> StyleToken list \<Rightarrow> string option \<Rightarrow> bool \<Rightarrow> Context \<Rightarrow> Store \<Rightarrow> Store" where
  "applyStyles e sts eas treatAsEmptyStep ctx s =
     setStyles (numberToString e) (currentTimeline ctx) sts eas treatAsEmptyStep (Some (locals ctx)) s"

definition visitStyle ::
  "env \<Rightarrow> StyleToken list \<Rightarrow> string option \<Rightarrow> bool \<Rightarrow> Context \<Rightarrow> Store \<Rightarrow> Context \<times> Store" where
  "visitStyle e sts ast_easing isEmptyStep ctx s =
     (let s1 = (if currentAnimateTimings ctx = None \<and> previousNode ctx = PrevAnimate
                then upd_tl (currentTimeline ctx) forwardFrame s else s);
          eas = (case currentAnimateTimings ctx of
                   Some t \<Rightarrow> (case easing t of
                                Some x \<Rightarrow> if x \<noteq> [] then Some x else ast_easing
                              | None \<Rightarrow> ast_easing)
                 | None \<Rightarrow> ast_easing)
      in (ctx\<lparr>previousNode := PrevStyle\<rparr>, applyStyles e sts eas isEmptyStep ctx s1))"

definition keyframe_step ::
  "env \<Rightarrow> jsnum \<Rightarrow> Context \<Rightarrow> jsnum \<times> StyleToken list \<times> string option \<Rightarrow> Store \<Rightarrow> Store" where
  "keyframe_step e dur innerContext step s =
     (case step of
        (offset, sts, eas) \<Rightarrow>
          applyStyles e sts eas False innerContext
            (upd_tl (currentTimeline innerContext) (forwardTime (js_mul offset dur)) s))"

definition visitKeyframes ::
  "env \<Rightarrow> (jsnum \<times> StyleToken list \<times> string option) list \<Rightarrow> Context \<Rightarrow> Store
     \<Rightarrow> error + (Context \<times> Store)" where
  "visitKeyframes e steps ctx s =
     (case currentAnimateTimings ctx of
        None \<Rightarrow> Inl TypeError
      | Some currentTimings \<Rightarrow>
          (let start = tb_duration (tl_of ctx s);
               dur = duration currentTimings
           in case createSubContext None None None ctx s of
                Inl err \<Rightarrow> Inl err
              | Inr (innerContext, ctx1, s1) \<Rightarrow>
                  (let innerTimeline = currentTimeline innerContext;
                       s2 = upd_tl innerTimeline (\<lambda>tb. tb\<lparr>tb_easing := easing currentTimings\<rparr>) s1;
                       s3 = fold (keyframe_step e dur innerContext) steps s2;
                       s4 = mergeTimelineCollectedStyles (currentTimeline ctx1) innerTimeline s3;
                       (ctx2, s5) = transformIntoNewTimeline (Some (js_add start dur)) ctx1 s4
                   in Inr (ctx2\<lparr>previousNode := PrevOther\<rparr>, s5))))"

definition visitAnimate ::
  "env \<Rightarrow> TimingAst \<Rightarrow> AnimateStyle \<Rightarrow> Context \<Rightarrow> Store \<Rightarrow> error + (Context \<times> Store)" where
  "visitAnimate e timingAst style ctx s =
     (case visitTiming e timingAst ctx s of
        Inl err \<Rightarrow> Inl err
      | Inr (t, s0) \<Rightarrow>
          (let ctx1 = ctx\<lparr>currentAnimateTimings := Some t\<rparr>;
               s1 = (if js_truthy (delay t)
                     then upd_tl (currentTimeline ctx1) snapshotCurrentStyles
                            (incrementTime (delay t) ctx1 s0)
                     else s0)
           in case (case style of
                      AKeyframes steps \<Rightarrow> visitKeyframes e steps ctx1 s1
                    | AStyle sts eas isEmptyStep \<Rightarrow>
                        Inr (visitStyle e sts eas isEmptyStep ctx1 (incrementTime (duration t) ctx1 s1))) of
                Inl err \<Rightarrow> Inl err
              | Inr (ctx2, s2) \<Rightarrow>
                  Inr (ctx2\<lparr>currentAnimateTimings := None, previousNode := PrevAnimate\<rparr>, s2)))"

text \<open>The part of \<open>visitSequence\<close> before its steps, and the part after them.\<close>

definition sequence_pre :: "StyleData option \<Rightarrow> Context \<Rightarrow> Store \<Rightarrow> error + (Context \<times> Store)" where
  "sequence_pre astLocals ctx s =
     (let (ctx1, s1) =
            (if previousNode ctx = PrevStyle
             then (ctx\<lparr>previousNode := DEFAULT_NOOP_PREVIOUS_NODE\<rparr>,
                   upd_tl (currentTimeline ctx) snapshotCurrentStyles
                     (upd_tl (currentTimeline ctx) forwardFrame s))
             else (ctx, s))
      in case astLocals of
           None \<Rightarrow> Inr (ctx1, s1)
         | Some l \<Rightarrow>
             (case createSubContext (Some l) None None ctx1 s1 of
                Inl err \<Rightarrow> Inl err
              | Inr (unused, ctx2, s2) \<Rightarrow>
                  (let (ctx3, s3) = transformIntoNewTimeline None ctx2 s2
                   in if hasOwnProperty l ''delay'' then
                        (case delay_local l of
                           Inl err \<Rightarrow> Inl err
                         | Inr d \<Rightarrow> Inr (ctx3, delayNextStep d ctx3 s3))
                      else Inr (ctx3, s3))))"

definition sequence_post :: "nat \<Rightarrow> vstate \<Rightarrow> vstate" where
  "sequence_post count0 st =
     (case st of
        (ctx, parent, s) \<Rightarrow>
          (let (ctx1, s1) = (if subContextCount ctx > count0
                             then transformIntoNewTimeline None ctx s else (ctx, s))
           in (ctx1\<lparr>previousNode := PrevOther\<rparr>, parent, s1)))"

text \<open>The inner context of a step of a group, delayed when the group has a delay.\<close>

definition group_inner ::
  "StyleData option \<Rightarrow> Context \<Rightarrow> Store \<Rightarrow> error + (Context \<times> Context \<times> Store)" where
  "group_inner astLocals ctx s =
     (case createSubContext astLocals None None ctx s of
        Inl err \<Rightarrow> Inl err
      | Inr (innerContext, ctx1, s1) \<Rightarrow>
          (if (case astLocals of Some l \<Rightarrow> hasOwnProperty l ''delay'' | None \<Rightarrow> False) then
             (case delay_local (locals innerContext) of
                Inl err \<Rightarrow> Inl err
              | Inr d \<Rightarrow> Inr (innerContext, ctx1, delayNextStep d innerContext s1))
           else Inr (innerContext, ctx1, s1)))"

definition group_post :: "jsnum \<Rightarrow> nat list \<Rightarrow> Context \<Rightarrow> Context option \<Rightarrow> Store \<Rightarrow> vstate" where
  "group_post furthestTime innerTimelines ctx parent s =
     (let s1 = fold (\<lambda>timeline st. mergeTimelineCollectedStyles (currentTimeline ctx) timeline st)
                 innerTimelines s;
          (ctx1, s2) = transformIntoNewTimeline (Some furthestTime) ctx s1
      in (ctx1\<lparr>previousNode := PrevOther\<rparr>, parent, s2))"

text \<open>\<open>invokeQuery\<close>.\<close>

definition zero_elements_msg :: "bool \<Rightarrow> string \<Rightarrow> string" where
  "zero_elements_msg multi originalSelector =
     (let fn = (if multi then ''queryAll'' else ''query'')
      in ''`'' @ fn @ ''(\"'' @ originalSelector @ ''\")` returned zero elements. (Use `'' @ fn
         @ ''(\"'' @ originalSelector @ ''\", { optional: true })` if you wish to allow this.)'')"

definition invokeQuery ::
  "env \<Rightarrow> element \<Rightarrow> string \<Rightarrow> string \<Rightarrow> bool \<Rightarrow> bool \<Rightarrow> bool \<Rightarrow> string list
     \<Rightarrow> element list \<times> string list" where
  "invokeQuery e rootElement selector originalSelector multi includeSelf optional errs =
     (let results0 = (if includeSelf then [rootElement] else []);
          results = (if multi then results0 @ querySelectorAll e rootElement selector
                     else if results0 = [] then
                       (case querySelector e rootElement selector of
                          Some elm \<Rightarrow> [elm]
                        | None \<Rightarrow> [])
                     else results0)
      in (results, if \<not> optional \<and> results = []
                   then errs @ [zero_elements_msg multi originalSelector] else errs))"

text \<open>The part of \<open>visitQuery\<close> before the loop over the elements: the context, the
  elements, the start time and the store.\<close>

definition query_pre ::
  "env \<Rightarrow> string \<Rightarrow> string \<Rightarrow> bool \<Rightarrow> bool \<Rightarrow> StyleData option \<Rightarrow> Context \<Rightarrow> Store
     \<Rightarrow> Context \<times> element list \<times> jsnum \<times> Store" where
  "query_pre e selector originalSelector multi includeSelf astLocals ctx s =
     (let start = currentTime (tl_of ctx s);
          l = (case astLocals of Some x \<Rightarrow> x | None \<Rightarrow> []);
          (ctx1, s1) =
            (if previousNode ctx = PrevStyle
                \<or> (js_eq start (Num 0) \<and> getCurrentStyleProperties (tl_of ctx s) \<noteq> [])
             then (ctx\<lparr>previousNode := DEFAULT_NOOP_PREVIOUS_NODE\<rparr>,
                   upd_tl (currentTimeline ctx) snapshotCurrentStyles
                     (upd_tl (currentTimeline ctx) forwardFrame s))
             else (ctx, s));
          (elms, errs) = invokeQuery e (c_element ctx1) selector originalSelector multi includeSelf
                           (val_truthy (map_of l ''optional'')) (errors s1)
      in (ctx1\<lparr>currentQueryTotal := length elms\<rparr>, elms, start, s1\<lparr>errors := errs\<rparr>))"

text \<open>The inner context of one matched element, delayed when the query has a delay.\<close>

definition query_inner ::
  "StyleData option \<Rightarrow> element \<Rightarrow> nat \<Rightarrow> Context \<Rightarrow> Store \<Rightarrow> error + (Context \<times> Context \<times> Store)" where
  "query_inner astLocals el i ctx s =
     (case createSubContext astLocals (Some el) None (ctx\<lparr>currentQueryIndex := i\<rparr>) s of
        Inl err \<Rightarrow> Inl err
      | Inr (innerContext, ctx1, s1) \<Rightarrow>
          (if (case astLocals of Some l \<Rightarrow> hasOwnProperty l ''delay'' | None \<Rightarrow> False) then
             (case delay_local (locals innerContext) of
                Inl err \<Rightarrow> Inl err
              | Inr d \<Rightarrow> Inr (innerContext, ctx1, delayNextStep d innerContext s1))
           else Inr (innerContext, ctx1, s1)))"

text \<open>After the animation of one element: a branch that only set styles is forwarded by
  a frame; the result is the end time of the branch.\<close>

definition query_branch_end :: "jsnum \<Rightarrow> Context \<Rightarrow> Store \<Rightarrow> jsnum \<times> Store" where
  "query_branch_end start innerContext s =
     (let endTime = currentTime (tl_of innerContext s)
      in if previousNode innerContext = PrevStyle \<and> js_eq start endTime then
           (let s1 = upd_tl (currentTimeline innerContext) snapshotCurrentStyles
                       (upd_tl (currentTimeline innerContext) forwardFrame s)
            in (currentTime (tl_of innerContext s1), s1))
         else (endTime, s))"

definition query_post :: "jsnum \<Rightarrow> nat option \<Rightarrow> Context \<Rightarrow> Context option \<Rightarrow> Store \<Rightarrow> vstate" where
  "query_post furthestTime sameElementTimeline ctx parent s =
     (let (ctx1, s1) = transformIntoNewTimeline (Some furthestTime)
                         (ctx\<lparr>currentQueryIndex := 0, currentQueryTotal := 0\<rparr>) s;
          s2 = (case sameElementTimeline of
                  Some timeline \<Rightarrow>
                    upd_tl (currentTimeline ctx1) snapshotCurrentStyles
                      (mergeTimelineCollectedStyles (currentTimeline ctx1) timeline s1)
                | None \<Rightarrow> s1)
      in (ctx1\<lparr>previousNode := PrevOther\<rparr>, parent, s2))"

text \<open>The delay that \<open>visitStagger\<close> computes from the timings of the stagger, the
  index and the total of the query, and the stagger time of the parent context.\<close>

definition stagger_delay :: "AnimateTimings \<Rightarrow> nat \<Rightarrow> nat \<Rightarrow> jsnum \<Rightarrow> jsnum" where
  "stagger_delay t queryIndex queryTotal parentStaggerTime =
     (let dur = js_abs (duration t);
          maxTime = js_mul dur (Num (real queryTotal - 1));
          del = js_mul dur (Num (real queryIndex));
          staggerTransformer = (if js_lt (duration t) (Num 0) then Some ''reverse'' else easing t)
      in if staggerTransformer = Some ''reverse'' then js_sub maxTime del
         else if staggerTransformer = Some ''full'' then parentStaggerTime
         else del)"

definition stagger_pre :: "AnimateTimings \<Rightarrow> Context \<Rightarrow> Context \<Rightarrow> Store \<Rightarrow> Store" where
  "stagger_pre t ctx parentContext s =
     (let del = stagger_delay t (currentQueryIndex ctx) (currentQueryTotal ctx)
                  (currentStaggerTime parentContext)
      in if js_truthy del then upd_tl (currentTimeline ctx) (tb_delayNextStep del) s else s)"

definition stagger_post :: "nat \<Rightarrow> jsnum \<Rightarrow> vstate \<Rightarrow> error + vstate" where
  "stagger_post timeline startingTime st =
     (case st of
        (ctx, parent, s) \<Rightarrow>
          (case parent of
             None \<Rightarrow> Inl TypeError
           | Some parentContext \<Rightarrow>
               Inr (ctx\<lparr>previousNode := PrevOther\<rparr>,
                    Some (parentContext\<lparr>currentStaggerTime :=
                       js_add (js_sub (currentTime (timelines s ! timeline)) startingTime)
                              (js_sub (startTime (timelines s ! timeline))
                                      (startTime (tl_of parentContext s)))\<rparr>),
                    s)))"

text \<open>
  The visitor. A child node enters the methods below as the function
  \<open>context \<mapsto> child.visit(this, context)\<close>. \<open>visit_steps\<close> is the loop of
  \<open>visitSequence\<close>, \<open>visit_group\<close> the first loop of \<open>visitGroup\<close> (it collects the
  furthest time and the inner timelines), and \<open>visit_query\<close> the loop of \<open>visitQuery\<close>
  over the matched elements (it collects the furthest time and the timeline of the
  querying element itself).
\<close>

type_synonym visitor = "vstate \<Rightarrow> error + vstate"

fun visit_steps :: "visitor list \<Rightarrow> vstate \<Rightarrow> error + vstate" where
  "visit_steps [] st = Inr st"
| "visit_steps (v # vs) st =
     (case v st of
        Inl err \<Rightarrow> Inl err
      | Inr st1 \<Rightarrow> visit_steps vs st1)"

definition visitSequence :: "visitor list \<Rightarrow> StyleData option \<Rightarrow> visitor" where
  "visitSequence steps astLocals st =
     (case st of
        (ctx, parent, s) \<Rightarrow>
          (case sequence_pre astLocals ctx s of
             Inl err \<Rightarrow> Inl err
           | Inr (ctx1, s1) \<Rightarrow>
               (case visit_steps steps (ctx1, parent, s1) of
                  Inl err \<Rightarrow> Inl err
                | Inr st1 \<Rightarrow> Inr (sequence_post (subContextCount ctx) st1))))"

fun visit_group ::
  "visitor list \<Rightarrow> StyleData option \<Rightarrow> jsnum \<times> nat list \<Rightarrow> vstate
     \<Rightarrow> error + ((jsnum \<times> nat list) \<times> vstate)" where
  "visit_group [] astLocals acc st = Inr (acc, st)"
| "visit_group (v # vs) astLocals acc st =
     (case st of
        (ctx, parent, s) \<Rightarrow>
          (case group_inner astLocals ctx s of
             Inl err \<Rightarrow> Inl err
           | Inr (innerContext, ctx1, s1) \<Rightarrow>
               (case v (innerContext, Some ctx1, s1) of
                  Inl err \<Rightarrow> Inl err
                | Inr (innerContext1, ctx2, s2) \<Rightarrow>
                    visit_group vs astLocals
                      (js_max (fst acc) (currentTime (tl_of innerContext1 s2)),
                       snd acc @ [currentTimeline innerContext1])
                      (case ctx2 of Some c \<Rightarrow> c | None \<Rightarrow> ctx1, parent, s2))))"

definition visitGroup :: "visitor list \<Rightarrow> StyleData option \<Rightarrow> visitor" where
  "visitGroup steps astLocals st =
     (case st of
        (ctx, parent, s) \<Rightarrow>
          (case visit_group steps astLocals (currentTime (tl_of ctx s), []) st of
             Inl err \<Rightarrow> Inl err
           | Inr ((furthestTime, innerTimelines), (ctx1, parent1, s1)) \<Rightarrow>
               Inr (group_post furthestTime innerTimelines ctx1 parent1 s1)))"

definition visitReference :: "visitor \<Rightarrow> StyleData option \<Rightarrow> visitor" where
  "visitReference animation astLocals st =
     (case st of
        (ctx, parent, s) \<Rightarrow>
          (case updateLocals astLocals True ctx of
             Inl err \<Rightarrow> Inl err
           | Inr ctx1 \<Rightarrow>
               (case animation (ctx1, parent, s) of
                  Inl err \<Rightarrow> Inl err
                | Inr (ctx2, parent2, s2) \<Rightarrow> Inr (ctx2\<lparr>previousNode := PrevOther\<rparr>, parent2, s2))))"

definition visitAnimateRef :: "visitor \<Rightarrow> StyleData option \<Rightarrow> StyleData option \<Rightarrow> visitor" where
  "visitAnimateRef animation refLocals astLocals st =
     (case st of
        (ctx, parent, s) \<Rightarrow>
          (case createSubContext astLocals None None ctx s of
             Inl err \<Rightarrow> Inl err
           | Inr (innerContext, ctx1, s1) \<Rightarrow>
               (case transformIntoNewTimeline None innerContext s1 of
                  (innerContext1, s2) \<Rightarrow>
                    (case visitReference animation refLocals (innerContext1, Some ctx1, s2) of
                       Inl err \<Rightarrow> Inl err
                     | Inr (innerContext2, parent2, s3) \<Rightarrow>
                         (case transformIntoNewTimeline
                                 (Some (currentTime (tl_of innerContext2 s3)))
                                 (case parent2 of Some c \<Rightarrow> c | None \<Rightarrow> ctx1) s3 of
                            (ctx4, s4) \<Rightarrow> Inr (ctx4\<lparr>previousNode := PrevOther\<rparr>, parent, s4))))))"

fun visit_query ::
  "visitor \<Rightarrow> StyleData option \<Rightarrow> element list \<Rightarrow> nat \<Rightarrow> jsnum \<times> nat option \<Rightarrow> vstate
     \<Rightarrow> error + ((jsnum \<times> nat option) \<times> vstate)" where
  "visit_query animation astLocals [] i acc st = Inr (acc, st)"
| "visit_query animation astLocals (el # els) i acc st =
     (case st of
        (ctx, parent, s) \<Rightarrow>
          (case query_inner astLocals el i ctx s of
             Inl err \<Rightarrow> Inl err
           | Inr (innerContext, ctx1, s1) \<Rightarrow>
               (case animation (innerContext, Some ctx1, s1) of
                  Inl err \<Rightarrow> Inl err
                | Inr (innerContext1, ctx2, s2) \<Rightarrow>
                    (case query_branch_end (currentTime (tl_of innerContext s1)) innerContext1 s2 of
                       (endTime, s3) \<Rightarrow>
                         visit_query animation astLocals els (Suc i)
                           (js_max (fst acc) endTime,
                            if el = c_element ctx1 then Some (currentTimeline innerContext)
                            else snd acc)
                           (case ctx2 of Some c \<Rightarrow> c | None \<Rightarrow> ctx1, parent, s3)))))"

definition visitQuery ::
  "env \<Rightarrow> string \<Rightarrow> string \<Rightarrow> bool \<Rightarrow> bool \<Rightarrow> visitor \<Rightarrow> StyleData option \<Rightarrow> visitor" where
  "visitQuery e selector originalSelector multi includeSelf animation astLocals st =
     (case st of
        (ctx, parent, s) \<Rightarrow>
          (case query_pre e selector originalSelector multi includeSelf astLocals ctx s of
             (ctx1, elms, start, s1) \<Rightarrow>
               (case visit_query animation astLocals elms 0 (start, None) (ctx1, parent, s1) of
                  Inl err \<Rightarrow> Inl err
                | Inr ((furthestTime, sameElementTimeline), (ctx2, parent2, s2)) \<Rightarrow>
                    Inr (query_post furthestTime sameElementTimeline ctx2 parent2 s2))))"

text \<open>\<open>visitStagger\<close>. Without a parent context the method throws, at the latest when
  it stores the stagger time.\<close>

definition visitStagger :: "AnimateTimings \<Rightarrow> visitor \<Rightarrow> visitor" where
  "visitStagger t animation st =
     (case st of
        (ctx, parent, s) \<Rightarrow>
          (case parent of
             None \<Rightarrow> Inl TypeError
           | Some parentContext \<Rightarrow>
               (let s1 = stagger_pre t ctx parentContext s
                in case animation (ctx, parent, s1) of
                     Inl err \<Rightarrow> Inl err
                   | Inr st1 \<Rightarrow>
                       stagger_post (currentTimeline ctx) (currentTime (tl_of ctx s1)) st1)))"

primrec visit :: "env \<Rightarrow> Ast \<Rightarrow> visitor" where
  "visit e TriggerAst = Inr"
| "visit e StateAst = Inr"
| "visit e TransitionAst = Inr"
| "visit e (SequenceAst steps astLocals) = visitSequence (map (visit e) steps) astLocals"
| "visit e (GroupAst steps astLocals) = visitGroup (map (visit e) steps) astLocals"
| "visit e (AnimateAst timingAst style) =
     (\<lambda>st. case st of
        (ctx, parent, s) \<Rightarrow>
          (case visitAnimate e timingAst style ctx s of
             Inl err \<Rightarrow> Inl err
           | Inr (ctx1, s1) \<Rightarrow> Inr (ctx1, parent, s1)))"
| "visit e (StyleAst sts eas isEmptyStep) =
     (\<lambda>st. case st of
        (ctx, parent, s) \<Rightarrow>
          (case visitStyle e sts eas isEmptyStep ctx s of (ctx1, s1) \<Rightarrow> Inr (ctx1, parent, s1)))"
| "visit e (ReferenceAst animation astLocals) = visitReference (visit e animation) astLocals"
| "visit e (AnimateRefAst animation refLocals astLocals) =
     visitAnimateRef (visit e animation) refLocals astLocals"
| "visit e (QueryAst selector originalSelector multi includeSelf animation astLocals) =
     visitQuery e selector originalSelector multi includeSelf (visit e animation) astLocals"
| "visit e (StaggerAst t animation) = visitStagger t (visit e animation)"

text \<open>
  \<open>AnimationTimelineBuilderVisitor.buildKeyframes\<close>, which is
  \<open>buildAnimationTimelines\<close>: the instructions and the errors, or the exception that
  ended the visit.
\<close>

definition apply_final_styles :: "env \<Rightarrow> StyleData \<Rightarrow> StyleData option \<Rightarrow> Store \<Rightarrow> Store" where
  "apply_final_styles e finalStyles astLocals s =
     (let animated = filter (\<lambda>i. containsAnimation (timelines s ! i)) [0..<length (timelines s)]
      in if animated \<noteq> [] \<and> obj_keys finalStyles \<noteq> []
            \<and> \<not> allowOnlyTimelineStyles (timelines s ! last animated)
         then setStyles (numberToString e) (last animated) [Styles finalStyles] None False astLocals s
         else s)"

text \<open>The constructor of \<open>AnimationTimelineContext\<close> for the root element, with a new
  list of timelines: it constructs the first builder.\<close>

definition new_AnimationTimelineContext :: "element \<Rightarrow> string list \<Rightarrow> Context \<times> Store" where
  "new_AnimationTimelineContext rootElement errs =
     (let (i, s0) = new_TimelineBuilder rootElement (Num 0) \<lparr>timelines = [], lookup = [], errors = errs\<rparr>
      in (\<lparr>c_element = rootElement, currentTimeline = i, currentAnimateTimings = None,
           previousNode = DEFAULT_NOOP_PREVIOUS_NODE, subContextCount = 0, locals = [],
           currentQueryIndex = 0, currentQueryTotal = 0, currentStaggerTime = Num 0\<rparr>, s0))"

definition buildAnimationTimelines ::
  "env \<Rightarrow> element \<Rightarrow> Ast \<Rightarrow> StyleData \<Rightarrow> StyleData \<Rightarrow> StyleData option \<Rightarrow> string list
     \<Rightarrow> error + (AnimationTimelineInstruction list \<times> string list)" where
  "buildAnimationTimelines e rootElement ast startingStyles finalStyles astLocals errs =
     (let (context0, s0) = new_AnimationTimelineContext rootElement errs;
          context = context0\<lparr>locals := (case astLocals of Some l \<Rightarrow> l | None \<Rightarrow> [])\<rparr>;
          s1 = setStyles (numberToString e) (currentTimeline context) [Styles startingStyles] None False
                 astLocals s0
      in case visit e ast (context, None, s1) of
           Inl err \<Rightarrow> Inl err
         | Inr (ctx, parent, s2) \<Rightarrow>
             (let s3 = apply_final_styles e finalStyles astLocals s2;
                  animated = filter containsAnimation (timelines s3)
              in Inr (if animated \<noteq> [] then map buildKeyframes animated
                      else [createTimelineInstruction rootElement [] [] [] (Num 0) (Num 0) (Some []) False],
                      errors s3)))"

section \<open>Rounding to the nearest double\<close>

text \<open>
  The exponent functions bracket their argument between two powers of two, an integer up
  to \<open>2^53\<close> is its own double, and the relative error of rounding is at most
  \<open>2^-53\<close> in the normal range.
\<close>

lemma pow2_powr: "pow2 k = 2 powr (of_int k)"
proof (cases "0 \<le> k")
  case True
  then have "2 powr (of_int k) = (2::real) powr (real (nat k))" by simp
  also have "\<dots> = 2 ^ nat k" by (simp add: powr_realpow)
  finally show ?thesis using True by (simp add: pow2_def)
next
  case False
  then have "2 powr (of_int k) = (2::real) powr (- real (nat (- k)))" by simp
  also have "\<dots> = 1 / 2 ^ nat (- k)" by (simp add: powr_minus powr_realpow divide_inverse)
  finally show ?thesis using False by (simp add: pow2_def)
qed

lemma pow2_pos: "0 < pow2 k"
  by (simp add: pow2_powr)

lemma pow2_add: "pow2 (a + b) = pow2 a * pow2 b"
  by (simp add: pow2_powr powr_add)

lemma pow2_plus1: "pow2 (k + 1) = 2 * pow2 k"
  using pow2_add [of k 1] by (simp add: pow2_def)

lemma pow2_minus1: "pow2 (k - 1) = pow2 k / 2"
  using pow2_plus1 [of "k - 1"] by simp

lemma pow2_mono: "a \<le> b \<Longrightarrow> pow2 a \<le> pow2 b"
  by (simp add: pow2_powr)

lemma pow2_nat: "pow2 (int n) = 2 ^ n"
  by (simp add: pow2_def)

lemma log2_up_bounds:
  "1 \<le> x \<Longrightarrow> 0 \<le> log2_up x \<and> pow2 (log2_up x) \<le> x \<and> x < 2 * pow2 (log2_up x)"
proof (induction x rule: log2_up.induct)
  case (1 x)
  show ?case
  proof (cases "2 \<le> x")
    case True
    then have ih: "0 \<le> log2_up (x / 2)" "pow2 (log2_up (x / 2)) \<le> x / 2"
      "x / 2 < 2 * pow2 (log2_up (x / 2))"
      using 1 by simp_all
    have e: "log2_up x = log2_up (x / 2) + 1"
      using True by (subst log2_up.simps) simp
    show ?thesis
      using ih by (simp add: e pow2_plus1)
  next
    case False
    then have "log2_up x = 0" by (subst log2_up.simps) simp
    then show ?thesis using False 1(2) by (simp add: pow2_def)
  qed
qed

lemma log2_down_bounds:
  "0 < x \<Longrightarrow> x < 1 \<Longrightarrow>
     log2_down x < 0 \<and> pow2 (log2_down x) \<le> x \<and> x < 2 * pow2 (log2_down x)"
proof (induction x rule: log2_down.induct)
  case (1 x)
  have e: "log2_down x = log2_down (2 * x) - 1"
    using 1(2,3) by (subst log2_down.simps) simp
  show ?case
  proof (cases "2 * x < 1")
    case True
    then have ih: "log2_down (2 * x) < 0" "pow2 (log2_down (2 * x)) \<le> 2 * x"
      "2 * x < 2 * pow2 (log2_down (2 * x))"
      using 1 by simp_all
    show ?thesis
      using ih by (simp add: e pow2_minus1)
  next
    case False
    then have "log2_down (2 * x) = 0" by (subst log2_down.simps) simp
    then show ?thesis using False 1(3) by (simp add: e pow2_def)
  qed
qed

lemma binary_exponent_bounds:
  assumes "0 < a"
  shows "pow2 (binary_exponent a) \<le> a \<and> a < 2 * pow2 (binary_exponent a)"
proof (cases "1 \<le> a")
  case True
  then show ?thesis using log2_up_bounds [of a] by (simp add: binary_exponent_def)
next
  case False
  then show ?thesis using log2_down_bounds [of a] assms by (simp add: binary_exponent_def)
qed

lemma binary_exponent_le:
  assumes "0 < a" "a < pow2 k"
  shows "binary_exponent a < k"
proof (rule ccontr)
  assume "\<not> binary_exponent a < k"
  then have "pow2 k \<le> pow2 (binary_exponent a)" by (simp add: pow2_mono)
  then show False using binary_exponent_bounds [OF assms(1)] assms(2) by simp
qed

lemma binary_exponent_ge:
  assumes "pow2 k \<le> a"
  shows "k \<le> binary_exponent a"
proof (rule ccontr)
  assume "\<not> k \<le> binary_exponent a"
  then have "binary_exponent a + 1 \<le> k" by simp
  then have "pow2 (binary_exponent a + 1) \<le> pow2 k" by (rule pow2_mono)
  moreover have "0 < a" using assms pow2_pos [of k] by simp
  ultimately show False using binary_exponent_bounds [of a] assms by (simp add: pow2_plus1)
qed

lemma round_half_even_int: "round_half_even (of_int m) = m"
  by (simp add: round_half_even_def nearest_even_def)

lemma round_half_even_close: "\<bar>of_int (round_half_even q) - q\<bar> \<le> 1 / 2"
proof -
  have "of_int \<lfloor>q\<rfloor> \<le> q" "q < of_int \<lfloor>q\<rfloor> + 1" by linarith+
  then show ?thesis
    by (auto simp: round_half_even_def nearest_even_def abs_le_iff)
qed

lemma ulp_pos: "0 < ulp_of a"
  by (simp add: ulp_of_def pow2_pos)

lemma fl_exact:
  assumes "x \<noteq> 0" "\<bar>x\<bar> < 2 ^ 1024" "\<bar>x\<bar> = of_int m * ulp_of \<bar>x\<bar>"
  shows "fl x = Num x"
proof -
  have "\<bar>x\<bar> / ulp_of \<bar>x\<bar> = of_int m"
    using assms(3) ulp_pos [of "\<bar>x\<bar>"] by (simp add: field_simps)
  then have "fl_round \<bar>x\<bar> (ulp_of \<bar>x\<bar>) = \<bar>x\<bar>"
    using assms(3) by (simp add: fl_round_def round_half_even_int)
  then show ?thesis
    using assms(1,2) by (simp add: fl_def fl_pack_def)
qed

lemma fl_of_int:
  assumes "\<bar>n\<bar> \<le> 2 ^ 53"
  shows "fl (of_int n) = Num (of_int n)"
proof (cases "n = 0")
  case True
  then show ?thesis by (simp add: fl_def)
next
  case False
  define a :: real where "a = \<bar>of_int n\<bar>"
  define e where "e = binary_exponent a"
  have a1: "1 \<le> a" using False by (simp add: a_def)
  have a53: "a \<le> pow2 53"
  proof -
    have "real_of_int \<bar>n\<bar> \<le> real_of_int (2 ^ 53)" using assms by (simp only: of_int_le_iff)
    then show ?thesis by (simp add: a_def pow2_def)
  qed
  have e0: "0 \<le> e" using binary_exponent_ge [of 0 a] a1 by (simp add: e_def pow2_def)
  have b: "pow2 e \<le> a" "a < 2 * pow2 e"
    using binary_exponent_bounds [of a] a1 by (simp_all add: e_def)
  have e53: "e \<le> 53"
  proof (rule ccontr)
    assume "\<not> e \<le> 53"
    then have "pow2 (53 + 1) \<le> pow2 e" by (intro pow2_mono) simp
    then show False using b(1) a53 by (simp add: pow2_plus1 pow2_def)
  qed
  have u: "ulp_of a = pow2 (e - 52)" using e0 by (simp add: ulp_of_def e_def)
  have "\<exists>m. a = of_int m * pow2 (e - 52)"
  proof (cases "e \<le> 52")
    case True
    have "pow2 (52 - e) * pow2 (e - 52) = 1"
      using pow2_add [of "52 - e" "e - 52"] by (simp add: pow2_def)
    moreover have "pow2 (52 - e) = of_int (2 ^ nat (52 - e))" using True by (simp add: pow2_def)
    ultimately have "a = of_int (\<bar>n\<bar> * 2 ^ nat (52 - e)) * pow2 (e - 52)"
      by (simp add: a_def mult.assoc)
    then show ?thesis by blast
  next
    case False
    then have e: "e = 53" using e53 by simp
    have "a = pow2 53" using b(1) a53 by (simp add: e)
    then have "a = of_int (2 ^ 52) * pow2 (e - 52)" by (simp add: e pow2_def)
    then show ?thesis by blast
  qed
  then obtain m where m: "a = of_int m * ulp_of a" using u by auto
  have lt: "a < 2 ^ 1024"
  proof -
    have "pow2 53 \<le> pow2 1023" by (rule pow2_mono) simp
    then show ?thesis using a53 by (simp add: pow2_def)
  qed
  show ?thesis
    using fl_exact [of "of_int n" m] False m lt by (simp add: a_def)
qed

lemma fl_error_ulp:
  assumes "x \<noteq> 0" "\<bar>x\<bar> < 2 ^ 1023"
  shows "\<exists>y. fl x = Num y \<and> \<bar>y - x\<bar> \<le> ulp_of \<bar>x\<bar> / 2 \<and> (0 < x \<longrightarrow> 0 \<le> y) \<and> (x < 0 \<longrightarrow> y \<le> 0)"
proof -
  define a where "a = \<bar>x\<bar>"
  define u where "u = ulp_of a"
  define k where "k = round_half_even (a / u)"
  define r where "r = of_int k * u"
  have a: "0 < a" using assms(1) by (simp add: a_def)
  have u: "0 < u" by (simp add: u_def ulp_pos)
  have "\<bar>of_int k - a / u\<bar> * u \<le> 1 / 2 * u"
    using round_half_even_close [of "a / u"] u by (intro mult_right_mono) (simp_all add: k_def)
  moreover have "\<bar>of_int k - a / u\<bar> * u = \<bar>r - a\<bar>"
  proof -
    have "\<bar>of_int k - a / u\<bar> * u = \<bar>(of_int k - a / u) * u\<bar>"
      using u by (simp add: abs_mult)
    also have "(of_int k - a / u) * u = r - a" using u by (simp add: r_def field_simps)
    finally show ?thesis .
  qed
  ultimately have close: "\<bar>r - a\<bar> \<le> u / 2" by simp
  have k0: "0 \<le> k"
  proof -
    have "0 \<le> a / u" using a u by simp
    then have "0 \<le> \<lfloor>a / u\<rfloor>" by simp
    then show ?thesis by (simp add: k_def round_half_even_def nearest_even_def)
  qed
  then have r0: "0 \<le> r" using u by (simp add: r_def)
  have ule: "u \<le> 2 ^ 971"
  proof -
    have "binary_exponent a < 1023"
      using binary_exponent_le [of a 1023] a assms(2) by (simp add: a_def pow2_def)
    then have "pow2 (max (binary_exponent a) (- 1022) - 52) \<le> pow2 971"
      by (intro pow2_mono) simp
    then show ?thesis by (simp add: u_def ulp_of_def pow2_def)
  qed
  have "r \<le> a + u / 2" using close by linarith
  also have "\<dots> < 2 ^ 1023 + 2 ^ 971" using assms(2) ule by (simp add: a_def)
  also have "\<dots> \<le> (2::real) ^ 1024" by simp
  finally have lt: "\<not> 2 ^ 1024 \<le> r" by simp
  have f: "fl x = Num (if 0 < x then r else - r)"
    using assms(1) lt by (simp add: fl_def fl_pack_def fl_round_def r_def k_def u_def a_def)
  have "\<bar>(if 0 < x then r else - r) - x\<bar> = \<bar>r - a\<bar>"
    using assms(1) by (auto simp: a_def)
  then show ?thesis
    using f close r0 by (auto simp: u_def a_def)
qed

lemma fl_error:
  assumes "pow2 (- 1022) \<le> \<bar>x\<bar>" "\<bar>x\<bar> < 2 ^ 1023"
  shows "\<exists>y. fl x = Num y \<and> \<bar>y - x\<bar> \<le> \<bar>x\<bar> / 2 ^ 53 \<and> (0 < x \<longrightarrow> 0 \<le> y) \<and> (x < 0 \<longrightarrow> y \<le> 0)"
proof -
  have x: "x \<noteq> 0" using assms(1) pow2_pos [of "- 1022"] by auto
  have e: "- 1022 \<le> binary_exponent \<bar>x\<bar>" using binary_exponent_ge [OF assms(1)] .
  have "ulp_of \<bar>x\<bar> = pow2 (binary_exponent \<bar>x\<bar> + (- 52))" using e by (simp add: ulp_of_def)
  also have "\<dots> = pow2 (binary_exponent \<bar>x\<bar>) / 2 ^ 52" by (simp only: pow2_add) (simp add: pow2_def)
  also have "\<dots> \<le> \<bar>x\<bar> / 2 ^ 52"
    using binary_exponent_bounds [of "\<bar>x\<bar>"] x by (simp add: divide_right_mono)
  finally have "ulp_of \<bar>x\<bar> / 2 \<le> \<bar>x\<bar> / 2 ^ 53" by simp
  then show ?thesis
    using fl_error_ulp [OF x assms(2)] by force
qed

section \<open>Evaluation of the compiler on concrete inputs\<close>

text \<open>
  The definitions that take a builder, a store or a context, instantiated at a record
  written out in full: as rewrite rules they apply once the state is known, so that the
  simplifier runs the model step by step.
\<close>

lemmas obj_defs = copyStyles_def copyObj_def obj_set_def obj_keys_def hasOwnProperty_def
  proto_get_def AUTO_STYLE_def PRE_STYLE_def set_add_def collect_props_def
  createTimelineInstruction_def flattenStyles_def interpolateLocals_def time_or_zero_def
  delay_local_def

lemmas fl_eval = fl_def fl_pack_def fl_round_def round_half_even_def nearest_even_def ulp_of_def
  binary_exponent_def pow2_def log2_up.simps log2_down.simps

lemmas num_defs = js_gt_def js_eq_def js_truthy_def js_max_def js_sub_def inf_of_sign_def fl_eval

lemmas tb_eval =
  kf_update_def [of _ _ "\<lparr>tb_element = a, startTime = b, tb_duration = c, tb_easing = d, previousKeyframe = p, currentKeyframe = q, keyframes = k, styleSummary = su, localTimelineStyles = lo, globalTimelineStyles = g, backFill = bf, currentEmptyStepKeyframe = em\<rparr>" for a b c d p q k su lo g bf em]
  kf_own_def [of _ "\<lparr>tb_element = a, startTime = b, tb_duration = c, tb_easing = d, previousKeyframe = p, currentKeyframe = q, keyframes = k, styleSummary = su, localTimelineStyles = lo, globalTimelineStyles = g, backFill = bf, currentEmptyStepKeyframe = em\<rparr>" for a b c d p q k su lo g bf em]
  containsAnimation_def [of "\<lparr>tb_element = a, startTime = b, tb_duration = c, tb_easing = d, previousKeyframe = p, currentKeyframe = q, keyframes = k, styleSummary = su, localTimelineStyles = lo, globalTimelineStyles = g, backFill = bf, currentEmptyStepKeyframe = em\<rparr>" for a b c d p q k su lo g bf em]
  getCurrentStyleProperties_def [of "\<lparr>tb_element = a, startTime = b, tb_duration = c, tb_easing = d, previousKeyframe = p, currentKeyframe = q, keyframes = k, styleSummary = su, localTimelineStyles = lo, globalTimelineStyles = g, backFill = bf, currentEmptyStepKeyframe = em\<rparr>" for a b c d p q k su lo g bf em]
  currentTime_def [of "\<lparr>tb_element = a, startTime = b, tb_duration = c, tb_easing = d, previousKeyframe = p, currentKeyframe = q, keyframes = k, styleSummary = su, localTimelineStyles = lo, globalTimelineStyles = g, backFill = bf, currentEmptyStepKeyframe = em\<rparr>" for a b c d p q k su lo g bf em]
  loadKeyframe_def [of "\<lparr>tb_element = a, startTime = b, tb_duration = c, tb_easing = d, previousKeyframe = p, currentKeyframe = q, keyframes = k, styleSummary = su, localTimelineStyles = lo, globalTimelineStyles = g, backFill = bf, currentEmptyStepKeyframe = em\<rparr>" for a b c d p q k su lo g bf em]
  forwardFrame_def [of "\<lparr>tb_element = a, startTime = b, tb_duration = c, tb_easing = d, previousKeyframe = p, currentKeyframe = q, keyframes = k, styleSummary = su, localTimelineStyles = lo, globalTimelineStyles = g, backFill = bf, currentEmptyStepKeyframe = em\<rparr>" for a b c d p q k su lo g bf em]
  forwardTime_def [of _ "\<lparr>tb_element = a, startTime = b, tb_duration = c, tb_easing = d, previousKeyframe = p, currentKeyframe = q, keyframes = k, styleSummary = su, localTimelineStyles = lo, globalTimelineStyles = g, backFill = bf, currentEmptyStepKeyframe = em\<rparr>" for a b c d p q k su lo g bf em]
  tb_delayNextStep_def [of _ "\<lparr>tb_element = a, startTime = b, tb_duration = c, tb_easing = d, previousKeyframe = p, currentKeyframe = q, keyframes = k, styleSummary = su, localTimelineStyles = lo, globalTimelineStyles = g, backFill = bf, currentEmptyStepKeyframe = em\<rparr>" for a b c d p q k su lo g bf em]
  allowOnlyTimelineStyles_def [of "\<lparr>tb_element = a, startTime = b, tb_duration = c, tb_easing = d, previousKeyframe = p, currentKeyframe = q, keyframes = k, styleSummary = su, localTimelineStyles = lo, globalTimelineStyles = g, backFill = bf, currentEmptyStepKeyframe = em\<rparr>" for a b c d p q k su lo g bf em]
  snapshotCurrentStyles_def [of "\<lparr>tb_element = a, startTime = b, tb_duration = c, tb_easing = d, previousKeyframe = p, currentKeyframe = q, keyframes = k, styleSummary = su, localTimelineStyles = lo, globalTimelineStyles = g, backFill = bf, currentEmptyStepKeyframe = em\<rparr>" for a b c d p q k su lo g bf em]
  final_keyframe_def [of "\<lparr>tb_element = a, startTime = b, tb_duration = c, tb_easing = d, previousKeyframe = p, currentKeyframe = q, keyframes = k, styleSummary = su, localTimelineStyles = lo, globalTimelineStyles = g, backFill = bf, currentEmptyStepKeyframe = em\<rparr>" for a b c d p q k su lo g bf em]
  buildKeyframes_def [of "\<lparr>tb_element = a, startTime = b, tb_duration = c, tb_easing = d, previousKeyframe = p, currentKeyframe = q, keyframes = k, styleSummary = su, localTimelineStyles = lo, globalTimelineStyles = g, backFill = bf, currentEmptyStepKeyframe = em\<rparr>" for a b c d p q k su lo g bf em]
  local_get_def [of "\<lparr>tb_element = a, startTime = b, tb_duration = c, tb_easing = d, previousKeyframe = p, currentKeyframe = q, keyframes = k, styleSummary = su, localTimelineStyles = lo, globalTimelineStyles = g, backFill = bf, currentEmptyStepKeyframe = em\<rparr>" for a b c d p q k su lo g bf em]
  complete_current_def [of "\<lparr>tb_element = a, startTime = b, tb_duration = c, tb_easing = d, previousKeyframe = p, currentKeyframe = q, keyframes = k, styleSummary = su, localTimelineStyles = lo, globalTimelineStyles = g, backFill = bf, currentEmptyStepKeyframe = em\<rparr>" for a b c d p q k su lo g bf em]

lemmas store_eval =
  upd_tl_def [of _ _ "\<lparr>timelines = ts, lookup = lk, errors = er\<rparr>" for ts lk er]
  new_TimelineBuilder_def [of _ _ "\<lparr>timelines = ts, lookup = lk, errors = er\<rparr>" for ts lk er]
  fork_def [of _ _ _ "\<lparr>timelines = ts, lookup = lk, errors = er\<rparr>" for ts lk er]
  global_own_def [of "\<lparr>timelines = ts, lookup = lk, errors = er\<rparr>" for ts lk er]
  global_get_def [of "\<lparr>timelines = ts, lookup = lk, errors = er\<rparr>" for ts lk er]
  updateStyle_def [of _ _ _ "\<lparr>timelines = ts, lookup = lk, errors = er\<rparr>" for ts lk er]
  empty_step_prop_def [of _ _ "\<lparr>timelines = ts, lookup = lk, errors = er\<rparr>" for ts lk er]
  set_style_prop_def [of _ _ _ _ "\<lparr>timelines = ts, lookup = lk, errors = er\<rparr>" for ts lk er]
  setStyles_def [of _ _ _ _ _ _ "\<lparr>timelines = ts, lookup = lk, errors = er\<rparr>" for ts lk er]
  set_previous_easing_def [of _ _ "\<lparr>timelines = ts, lookup = lk, errors = er\<rparr>" for ts lk er]
  mergeTimelineCollectedStyles_def [of _ _ "\<lparr>timelines = ts, lookup = lk, errors = er\<rparr>" for ts lk er]
  apply_final_styles_def [of _ _ _ "\<lparr>timelines = ts, lookup = lk, errors = er\<rparr>" for ts lk er]

lemmas ctx_eval =
  updateLocals_def [of _ _ "\<lparr>c_element = a, currentTimeline = b, currentAnimateTimings = c, previousNode = d, subContextCount = n, locals = l, currentQueryIndex = qi, currentQueryTotal = qt, currentStaggerTime = st\<rparr>" for a b c d n l qi qt st]
  copyLocals_def [of "\<lparr>c_element = a, currentTimeline = b, currentAnimateTimings = c, previousNode = d, subContextCount = n, locals = l, currentQueryIndex = qi, currentQueryTotal = qt, currentStaggerTime = st\<rparr>" for a b c d n l qi qt st]
  createSubContext_def [of _ _ _ _ "\<lparr>timelines = ts, lookup = lk, errors = er\<rparr>" for ts lk er]
  transformIntoNewTimeline_def [of _ _ "\<lparr>timelines = ts, lookup = lk, errors = er\<rparr>" for ts lk er]
  incrementTime_def [of _ _ "\<lparr>timelines = ts, lookup = lk, errors = er\<rparr>" for ts lk er]
  delayNextStep_def [of _ _ "\<lparr>timelines = ts, lookup = lk, errors = er\<rparr>" for ts lk er]
  tl_of_def [of _ "\<lparr>timelines = ts, lookup = lk, errors = er\<rparr>" for ts lk er]

lemmas visitor_eval =
  visitTiming_def [of _ _ _ "\<lparr>timelines = ts, lookup = lk, errors = er\<rparr>" for ts lk er]
  applyStyles_def [of _ _ _ _ _ "\<lparr>timelines = ts, lookup = lk, errors = er\<rparr>" for ts lk er]
  visitStyle_def [of _ _ _ _ _ "\<lparr>timelines = ts, lookup = lk, errors = er\<rparr>" for ts lk er]
  keyframe_step_def [of _ _ _ _ "\<lparr>timelines = ts, lookup = lk, errors = er\<rparr>" for ts lk er]
  visitKeyframes_def [of _ _ _ "\<lparr>timelines = ts, lookup = lk, errors = er\<rparr>" for ts lk er]
  visitAnimate_def [of _ _ _ _ "\<lparr>timelines = ts, lookup = lk, errors = er\<rparr>" for ts lk er]
  sequence_pre_def [of _ _ "\<lparr>timelines = ts, lookup = lk, errors = er\<rparr>" for ts lk er]
  sequence_post_def [of _ "(ctx, parent, \<lparr>timelines = ts, lookup = lk, errors = er\<rparr>)" for ctx parent ts lk er]
  group_inner_def [of _ _ "\<lparr>timelines = ts, lookup = lk, errors = er\<rparr>" for ts lk er]
  group_post_def [of _ _ _ _ "\<lparr>timelines = ts, lookup = lk, errors = er\<rparr>" for ts lk er]
  query_pre_def [of _ _ _ _ _ _ _ "\<lparr>timelines = ts, lookup = lk, errors = er\<rparr>" for ts lk er]
  query_inner_def [of _ _ _ _ "\<lparr>timelines = ts, lookup = lk, errors = er\<rparr>" for ts lk er]
  query_branch_end_def [of _ _ "\<lparr>timelines = ts, lookup = lk, errors = er\<rparr>" for ts lk er]
  query_post_def [of _ _ _ _ "\<lparr>timelines = ts, lookup = lk, errors = er\<rparr>" for ts lk er]
  stagger_pre_def [of _ _ _ "\<lparr>timelines = ts, lookup = lk, errors = er\<rparr>" for ts lk er]
  stagger_post_def [of _ _ "(ctx, parent, \<lparr>timelines = ts, lookup = lk, errors = er\<rparr>)" for ctx parent ts lk er]
  visitSequence_def [of _ _ "(ctx, parent, \<lparr>timelines = ts, lookup = lk, errors = er\<rparr>)" for ctx parent ts lk er]
  visitGroup_def [of _ _ "(ctx, parent, \<lparr>timelines = ts, lookup = lk, errors = er\<rparr>)" for ctx parent ts lk er]
  visitReference_def [of _ _ "(ctx, parent, \<lparr>timelines = ts, lookup = lk, errors = er\<rparr>)" for ctx parent ts lk er]
  visitAnimateRef_def [of _ _ _ "(ctx, parent, \<lparr>timelines = ts, lookup = lk, errors = er\<rparr>)" for ctx parent ts lk er]
  visitQuery_def [of _ _ _ _ _ _ _ "(ctx, parent, \<lparr>timelines = ts, lookup = lk, errors = er\<rparr>)" for ctx parent ts lk er]
  visitStagger_def [of _ _ "(ctx, parent, \<lparr>timelines = ts, lookup = lk, errors = er\<rparr>)" for ctx parent ts lk er]
  stagger_delay_def new_AnimationTimelineContext_def buildAnimationTimelines_def
  invokeQuery_def zero_elements_msg_def

lemmas eval_rules = obj_defs num_defs tb_eval store_eval ctx_eval visitor_eval Let_def


section \<open>Properties of the timeline compiler\<close>

text \<open>
  C1. Compiling \<open>sequence([style({opacity: 0}), animate(1000, style({opacity: 1}))])\<close>
  for any element, with empty starting and final styles and no variable bindings (absent
  or empty), gives exactly one instruction: keyframes \<open>{opacity: 0, offset: 0}\<close> and
  \<open>{opacity: 1, offset: 1}\<close>, duration 1000, delay 0; no error is added.
\<close>

theorem compile_sequence_scenario:
  "l = None \<or> l = Some [] \<Longrightarrow>
   buildAnimationTimelines e el
     (SequenceAst [StyleAst [Styles [(''opacity'', NumV (Num 0))]] None False,
                   AnimateAst (StaticTiming \<lparr>duration = Num 1000, delay = Num 0, easing = Some []\<rparr>)
                              (AStyle [Styles [(''opacity'', NumV (Num 1))]] None False)] None)
     [] [] l errs
   = Inr ([\<lparr>i_element = el,
            i_keyframes = [[(''opacity'', NumV (Num 0)), (''offset'', NumV (Num 0))],
                           [(''opacity'', NumV (Num 1)), (''offset'', NumV (Num 1))]],
            i_preStyleProps = [], i_postStyleProps = [], i_duration = Num 1000, i_delay = Num 0,
            i_easing = None, i_subTimeline = False\<rparr>], errs)"
  by (elim disjE) (simp_all add: eval_rules)

theorem compile_sequence_scenario_witness:
  "buildAnimationTimelines \<lparr>numberToString = (\<lambda>n. []), querySelectorAll = (\<lambda>x sel. []), querySelector = (\<lambda>x sel. None)\<rparr> 7
     (SequenceAst [StyleAst [Styles [(''opacity'', NumV (Num 0))]] None False,
                   AnimateAst (StaticTiming \<lparr>duration = Num 1000, delay = Num 0, easing = Some []\<rparr>)
                              (AStyle [Styles [(''opacity'', NumV (Num 1))]] None False)] None)
     [] [] None []
   = Inr ([\<lparr>i_element = 7,
            i_keyframes = [[(''opacity'', NumV (Num 0)), (''offset'', NumV (Num 0))],
                           [(''opacity'', NumV (Num 1)), (''offset'', NumV (Num 1))]],
            i_preStyleProps = [], i_postStyleProps = [], i_duration = Num 1000, i_delay = Num 0,
            i_easing = None, i_subTimeline = False\<rparr>], [])"
  using compile_sequence_scenario [of None] by simp

text \<open>
  C2. The merge after a group depends on the order of the children. Child A is
  \<open>animate(5, style({opacity: 0}))\<close> and child B is \<open>animate(10, style({opacity: 1}))\<close>,
  so that A writes at time 5 and B at time 10. For \<open>group([B, A])\<close> the style summary
  of the parent timeline and the global styles of the element end with opacity 0, the
  value of the child merged last; for \<open>group([A, B])\<close> they end with opacity 1. The
  entry that a merge writes carries the current time of the parent (here 0), not the
  time of the child's write, so the entry of every later child is newer than it.
\<close>

theorem group_merge_depends_on_order:
  "(case new_AnimationTimelineContext el errs of
      (ctx, s) \<Rightarrow>
        (case visit e
                (GroupAst
                   [AnimateAst (StaticTiming \<lparr>duration = Num 10, delay = Num 0, easing = Some []\<rparr>)
                      (AStyle [Styles [(''opacity'', NumV (Num 1))]] None False),
                    AnimateAst (StaticTiming \<lparr>duration = Num 5, delay = Num 0, easing = Some []\<rparr>)
                      (AStyle [Styles [(''opacity'', NumV (Num 0))]] None False)] None)
                (ctx, None, s) of
           Inl err \<Rightarrow> None
         | Inr (ctx1, parent, s1) \<Rightarrow>
             Some (map_of (styleSummary (timelines s1 ! currentTimeline ctx)) ''opacity'',
                   map_of (global_own s1 (currentTimeline ctx1)) ''opacity'')))
     = Some (Some \<lparr>sat_time = Num 0, sat_value = NumV (Num 0)\<rparr>, Some (NumV (Num 0)))
   \<and> (case new_AnimationTimelineContext el errs of
      (ctx, s) \<Rightarrow>
        (case visit e
                (GroupAst
                   [AnimateAst (StaticTiming \<lparr>duration = Num 5, delay = Num 0, easing = Some []\<rparr>)
                      (AStyle [Styles [(''opacity'', NumV (Num 0))]] None False),
                    AnimateAst (StaticTiming \<lparr>duration = Num 10, delay = Num 0, easing = Some []\<rparr>)
                      (AStyle [Styles [(''opacity'', NumV (Num 1))]] None False)] None)
                (ctx, None, s) of
           Inl err \<Rightarrow> None
         | Inr (ctx1, parent, s1) \<Rightarrow>
             Some (map_of (styleSummary (timelines s1 ! currentTimeline ctx)) ''opacity'',
                   map_of (global_own s1 (currentTimeline ctx1)) ''opacity'')))
     = Some (Some \<lparr>sat_time = Num 0, sat_value = NumV (Num 1)\<rparr>, Some (NumV (Num 1)))"
  by (simp add: eval_rules)

text \<open>
  C3. A compilation whose result has a keyframe without a property that another keyframe
  of the same timeline has: for
  \<open>sequence([sequence([animate(1000)]), group([style({b: 2})])])\<close> with final styles
  \<open>{c: 3}\<close> the only instruction has the keyframes \<open>{c: *, offset: 0}\<close> and
  \<open>{c: 3, b: 2, offset: 1}\<close>. The style \<open>b\<close> of the group's child reaches the local
  styles of the first timeline through the shared global styles of the element, without
  an entry in its backfill; applying the final styles copies it into the last keyframe.
\<close>

theorem backfill_incomplete_after_final_styles:
  "buildAnimationTimelines e el
     (SequenceAst
        [SequenceAst
           [AnimateAst (StaticTiming \<lparr>duration = Num 1000, delay = Num 0, easing = Some []\<rparr>)
              (AStyle [Styles []] None True)] None,
         GroupAst [StyleAst [Styles [(''b'', NumV (Num 2))]] None False] None] None)
     [] [(''c'', NumV (Num 3))] None errs
   = Inr ([\<lparr>i_element = el,
            i_keyframes = [[(''c'', StrV ''*''), (''offset'', NumV (Num 0))],
                           [(''c'', NumV (Num 3)), (''b'', NumV (Num 2)), (''offset'', NumV (Num 1))]],
            i_preStyleProps = [], i_postStyleProps = [''c''], i_duration = Num 1000,
            i_delay = Num 0, i_easing = None, i_subTimeline = False\<rparr>], errs)"
  by (simp add: eval_rules)


text \<open>
  C5. The delay of a stagger on a builder that has already advanced. For a query that
  matches four elements, \<open>stagger(100, animate(200, ...))\<close> compiles to instructions with
  the delays 0, 100, 200, 300, and \<open>stagger(-100, ...)\<close> to the delays 300, 200, 100, 0:
  there the builder of each element has not advanced and the delay is added to its start
  time. When the animation of the query is \<open>sequence([animate(500, ...), stagger(100,
  animate(200, ...))])\<close> and the query starts at time 1000, the builder of the second
  element (index 1, start time 1000, duration 500) is not delayed by 100:
  \<open>delayNextStep\<close> sets its duration to \<open>1000 + 500 + 100\<close>, so the staggered
  animation runs from 1600 to 1800 on that timeline instead of from 600 to 800, and the
  instruction of the element has the duration 1800.
\<close>

theorem stagger_delay_on_advanced_builder:
  "map_sum id (map (\<lambda>ins. (i_element ins, i_delay ins)) \<circ> fst)
     (buildAnimationTimelines \<lparr>numberToString = (\<lambda>n. []), querySelectorAll = (\<lambda>x sel. if x = 0 then [1, 2, 3, 4] else []), querySelector = (\<lambda>x sel. None)\<rparr> 0
        (QueryAst ''.item'' ''.item'' True False
           (StaggerAst \<lparr>duration = Num 100, delay = Num 0, easing = Some []\<rparr>
              (AnimateAst (StaticTiming \<lparr>duration = Num 200, delay = Num 0, easing = Some []\<rparr>)
                 (AStyle [Styles [(''opacity'', NumV (Num 1))]] None False))) None)
        [] [] None [])
     = Inr [(1, Num 0), (2, Num 100), (3, Num 200), (4, Num 300)]
   \<and> map_sum id (map (\<lambda>ins. (i_element ins, i_delay ins)) \<circ> fst)
     (buildAnimationTimelines \<lparr>numberToString = (\<lambda>n. []), querySelectorAll = (\<lambda>x sel. if x = 0 then [1, 2, 3, 4] else []), querySelector = (\<lambda>x sel. None)\<rparr> 0
        (QueryAst ''.item'' ''.item'' True False
           (StaggerAst \<lparr>duration = Num (- 100), delay = Num 0, easing = Some []\<rparr>
              (AnimateAst (StaticTiming \<lparr>duration = Num 200, delay = Num 0, easing = Some []\<rparr>)
                 (AStyle [Styles [(''opacity'', NumV (Num 1))]] None False))) None)
        [] [] None [])
     = Inr [(1, Num 300), (2, Num 200), (3, Num 100), (4, Num 0)]
   \<and> tb_duration (tb_delayNextStep (Num 100)
        \<lparr>tb_element = 2, startTime = Num 1000, tb_duration = Num 500, tb_easing = None,
         previousKeyframe = Some (Num 0), currentKeyframe = Some (Num 500),
         keyframes = [(Num 0, []), (Num 500, [(''opacity'', NumV (Num 1))])], styleSummary = [],
         localTimelineStyles = [], globalTimelineStyles = 2, backFill = [],
         currentEmptyStepKeyframe = None\<rparr>) = Num 1600
   \<and> map_sum id
       (map (\<lambda>ins. (i_element ins, i_delay ins, i_duration ins,
                     map (\<lambda>k. map_of k ''offset'') (i_keyframes ins))) \<circ> fst)
     (buildAnimationTimelines \<lparr>numberToString = (\<lambda>n. []), querySelectorAll = (\<lambda>x sel. if x = 0 then [1, 2] else []), querySelector = (\<lambda>x sel. None)\<rparr> 0
        (SequenceAst
           [AnimateAst (StaticTiming \<lparr>duration = Num 1000, delay = Num 0, easing = Some []\<rparr>)
              (AStyle [Styles [(''opacity'', NumV (Num 0))]] None False),
            QueryAst ''.item'' ''.item'' True False
              (SequenceAst
                 [AnimateAst (StaticTiming \<lparr>duration = Num 500, delay = Num 0, easing = Some []\<rparr>)
                    (AStyle [Styles [(''opacity'', NumV (Num 1))]] None False),
                  StaggerAst \<lparr>duration = Num 100, delay = Num 0, easing = Some []\<rparr>
                    (AnimateAst (StaticTiming \<lparr>duration = Num 200, delay = Num 0, easing = Some []\<rparr>)
                       (AStyle [Styles [(''opacity'', NumV (Num 0))]] None False))] None) None] None)
        [] [] None [])
     = Inr [(0, Num 0, Num 1000, [Some (NumV (Num 0)), Some (NumV (Num 1))]),
            (1, Num 1000, Num 700,
             [Some (NumV (Num 0)), Some (NumV (js_div (Num 500) (Num 700))), Some (NumV (Num 1))]),
            (2, Num 1000, Num 1800,
             [Some (NumV (Num 0)), Some (NumV (js_div (Num 500) (Num 1800))),
              Some (NumV (js_div (Num 1600) (Num 1800))), Some (NumV (Num 1))])]"
  by (simp add: eval_rules)

lemma map_of_obj_set: "map_of (obj_set k v m) k = Some v"
  by (simp add: obj_set_def update_conv')

lemma i_keyframes_buildKeyframes:
  "i_keyframes (buildKeyframes tb)
     = map (\<lambda>(t, keyframe). obj_set ''offset'' (NumV (js_div t (tb_duration tb))) (final_keyframe tb keyframe))
           (keyframes tb)"
  by (simp add: buildKeyframes_def createTimelineInstruction_def Let_def split_beta)

text \<open>
  C7. Every keyframe that \<open>buildKeyframes\<close> emits has the offset
  \<open>time / duration\<close> of JavaScript, for its time in the builder. When the duration is 0
  and the builder holds only its initial keyframe, that offset is \<open>0 / 0\<close>, which is NaN.
  The compiler does not finalize such a builder: every instruction it returns, other than
  the instruction of an empty result, is built from a builder with more than one keyframe.
\<close>

theorem buildKeyframes_offsets:
  "length (i_keyframes (buildKeyframes tb)) = length (keyframes tb)
   \<and> (\<forall>j<length (keyframes tb).
        map_of (i_keyframes (buildKeyframes tb) ! j) ''offset''
          = Some (NumV (js_div (fst (keyframes tb ! j)) (tb_duration tb))))
   \<and> (tb_duration tb = Num 0 \<and> keyframes tb = [(Num 0, kf)] \<longrightarrow>
        map (\<lambda>k. map_of k ''offset'') (i_keyframes (buildKeyframes tb)) = [Some (NumV NaN)])
   \<and> (buildAnimationTimelines e el ast startingStyles finalStyles l errs = Inr (ins, errs1) \<longrightarrow>
        ins = [createTimelineInstruction el [] [] [] (Num 0) (Num 0) (Some []) False]
        \<or> (\<exists>tbs. ins = map buildKeyframes tbs \<and> list_all containsAnimation tbs))"
proof (intro conjI allI impI)
  show "length (i_keyframes (buildKeyframes tb)) = length (keyframes tb)"
    by (simp add: i_keyframes_buildKeyframes)
next
  fix j assume "j < length (keyframes tb)"
  then show "map_of (i_keyframes (buildKeyframes tb) ! j) ''offset''
          = Some (NumV (js_div (fst (keyframes tb ! j)) (tb_duration tb)))"
    by (simp add: i_keyframes_buildKeyframes split_beta map_of_obj_set)
next
  assume "tb_duration tb = Num 0 \<and> keyframes tb = [(Num 0, kf)]"
  then show "map (\<lambda>k. map_of k ''offset'') (i_keyframes (buildKeyframes tb)) = [Some (NumV NaN)]"
    by (simp add: i_keyframes_buildKeyframes map_of_obj_set inf_of_sign_def)
next
  assume "buildAnimationTimelines e el ast startingStyles finalStyles l errs = Inr (ins, errs1)"
  then show "ins = [createTimelineInstruction el [] [] [] (Num 0) (Num 0) (Some []) False]
        \<or> (\<exists>tbs. ins = map buildKeyframes tbs \<and> list_all containsAnimation tbs)"
    by (auto simp: buildAnimationTimelines_def Let_def list_all_iff
             split: prod.splits sum.splits if_splits)
qed

theorem buildKeyframes_offsets_witness:
  "map (\<lambda>k. map_of k ''offset'')
     (i_keyframes (buildKeyframes
        \<lparr>tb_element = 0, startTime = Num 0, tb_duration = Num 1000, tb_easing = None,
         previousKeyframe = Some (Num 0), currentKeyframe = Some (Num 1000),
         keyframes = [(Num 0, []), (Num 250, []), (Num 1000, [])], styleSummary = [],
         localTimelineStyles = [], globalTimelineStyles = 0, backFill = [],
         currentEmptyStepKeyframe = None\<rparr>))
     = [Some (NumV (Num 0)), Some (NumV (Num (1 / 4))), Some (NumV (Num 1))]
   \<and> map_of (i_keyframes (buildKeyframes
        \<lparr>tb_element = 0, startTime = Num 0, tb_duration = Num 1000, tb_easing = None,
         previousKeyframe = Some (Num 0), currentKeyframe = Some (Num 1000),
         keyframes = [(Num 0, []), (Num 250, []), (Num 1000, [])], styleSummary = [],
         localTimelineStyles = [], globalTimelineStyles = 0, backFill = [],
         currentEmptyStepKeyframe = None\<rparr>) ! 1) ''offset'' = Some (NumV (Num (1 / 4)))
   \<and> map (\<lambda>k. map_of k ''offset'')
     (i_keyframes (buildKeyframes
        \<lparr>tb_element = 0, startTime = Num 0, tb_duration = Num 0, tb_easing = None,
         previousKeyframe = None, currentKeyframe = Some (Num 0),
         keyframes = [(Num 0, [])], styleSummary = [],
         localTimelineStyles = [], globalTimelineStyles = 0, backFill = [],
         currentEmptyStepKeyframe = None\<rparr>))
     = [Some (NumV NaN)]
   \<and> (\<exists>tbs ins errs1.
        buildAnimationTimelines
          \<lparr>numberToString = (\<lambda>n. []), querySelectorAll = (\<lambda>x sel. []), querySelector = (\<lambda>x sel. None)\<rparr> 7
          (SequenceAst [StyleAst [Styles [(''opacity'', NumV (Num 0))]] None False,
                   AnimateAst (StaticTiming \<lparr>duration = Num 1000, delay = Num 0, easing = Some []\<rparr>)
                              (AStyle [Styles [(''opacity'', NumV (Num 1))]] None False)] None)
          [] [] None [] = Inr (ins, errs1)
        \<and> ins = map buildKeyframes tbs \<and> length ins = 1 \<and> list_all containsAnimation tbs)"
proof -
  let ?tb = "\<lparr>tb_element = 0, startTime = Num 0, tb_duration = Num 1000, tb_easing = None,
         previousKeyframe = Some (Num 0), currentKeyframe = Some (Num 1000),
         keyframes = [(Num 0, []), (Num 250, []), (Num 1000, [])], styleSummary = [],
         localTimelineStyles = [], globalTimelineStyles = 0, backFill = [],
         currentEmptyStepKeyframe = None\<rparr>"
  let ?fresh = "\<lparr>tb_element = 0, startTime = Num 0, tb_duration = Num 0, tb_easing = None,
         previousKeyframe = None, currentKeyframe = Some (Num 0),
         keyframes = [(Num 0, [])], styleSummary = [],
         localTimelineStyles = [], globalTimelineStyles = 0, backFill = [],
         currentEmptyStepKeyframe = None\<rparr>"
  let ?e = "\<lparr>numberToString = (\<lambda>n. []), querySelectorAll = (\<lambda>x sel. []), querySelector = (\<lambda>x sel. None)\<rparr>"
  let ?ast = "SequenceAst [StyleAst [Styles [(''opacity'', NumV (Num 0))]] None False,
                   AnimateAst (StaticTiming \<lparr>duration = Num 1000, delay = Num 0, easing = Some []\<rparr>)
                              (AStyle [Styles [(''opacity'', NumV (Num 1))]] None False)] None"
  let ?ins = "[\<lparr>i_element = 7,
            i_keyframes = [[(''opacity'', NumV (Num 0)), (''offset'', NumV (Num 0))],
                           [(''opacity'', NumV (Num 1)), (''offset'', NumV (Num 1))]],
            i_preStyleProps = [], i_postStyleProps = [], i_duration = Num 1000, i_delay = Num 0,
            i_easing = None, i_subTimeline = False\<rparr>]"
  have a: "map_of (i_keyframes (buildKeyframes ?tb) ! 1) ''offset''
          = Some (NumV (js_div (fst (keyframes ?tb ! 1)) (tb_duration ?tb)))"
    using buildKeyframes_offsets [where tb = ?tb] by simp
  have b: "map (\<lambda>k. map_of k ''offset'') (i_keyframes (buildKeyframes ?fresh)) = [Some (NumV NaN)]"
    using buildKeyframes_offsets [where tb = ?fresh and kf = "[]"] by simp
  have ev: "buildAnimationTimelines ?e 7 ?ast [] [] None [] = Inr (?ins, [])"
    by (simp add: eval_rules)
  have ne: "?ins \<noteq> [createTimelineInstruction 7 [] [] [] (Num 0) (Num 0) (Some []) False]"
    by (simp add: createTimelineInstruction_def)
  have "?ins = [createTimelineInstruction 7 [] [] [] (Num 0) (Num 0) (Some []) False]
        \<or> (\<exists>tbs. ?ins = map buildKeyframes tbs \<and> list_all containsAnimation tbs)"
    using buildKeyframes_offsets [where e = ?e and el = 7 and ast = ?ast and startingStyles = "[]"
        and finalStyles = "[]" and l = None and errs = "[]" and ins = ?ins and ?errs1.0 = "[]", THEN conjunct2, THEN conjunct2, THEN conjunct2] ev
    by (rule mp)
  then have "\<exists>tbs. ?ins = map buildKeyframes tbs \<and> list_all containsAnimation tbs"
  proof (rule disjE)
    assume "?ins = [createTimelineInstruction 7 [] [] [] (Num 0) (Num 0) (Some []) False]"
    with ne show ?thesis by (rule notE)
  qed
  then obtain tbs where c: "?ins = map buildKeyframes tbs" "list_all containsAnimation tbs"
    by (elim exE conjE)
  have len: "length tbs = 1"
    using arg_cong [OF c(1), of length] by simp
  have d: "\<exists>tbs ins errs1. buildAnimationTimelines ?e 7 ?ast [] [] None [] = Inr (ins, errs1)
        \<and> ins = map buildKeyframes tbs \<and> length ins = 1 \<and> list_all containsAnimation tbs"
    using ev c len by (intro exI [of _ tbs] exI [of _ ?ins] exI [of _ "[]"]) simp
  have ab: "map (\<lambda>k. map_of k ''offset'') (i_keyframes (buildKeyframes ?tb))
     = [Some (NumV (Num 0)), Some (NumV (Num (1 / 4))), Some (NumV (Num 1))]"
    by (simp add: eval_rules)
  have a': "map_of (i_keyframes (buildKeyframes ?tb) ! 1) ''offset'' = Some (NumV (Num (1 / 4)))"
    using a by (simp add: eval_rules)
  show ?thesis using ab a' b d by blast
qed

theorem single_keyframe_offset_counterexample:
  "i_keyframes (buildKeyframes
      (timelines (snd (new_TimelineBuilder 0 (Num 0) \<lparr>timelines = [], lookup = [], errors = []\<rparr>)) ! 0))
     = [[(''offset'', NumV NaN)]]
   \<and> tb_duration
      (timelines (snd (new_TimelineBuilder 0 (Num 0) \<lparr>timelines = [], lookup = [], errors = []\<rparr>)) ! 0)
     = Num 0
   \<and> NumV NaN \<noteq> NumV (Num 0)"
  by (simp add: eval_rules)

text \<open>
  C9. \<open>delayNextStep\<close> of a context with a delay that is not greater than 0 (zero, a
  negative number, or NaN) returns the store as it is: the timelines, among them the
  current one, and the list of errors are unchanged.
\<close>

theorem delayNextStep_nonpositive_ignored:
  "(x \<le> 0 \<longrightarrow> delayNextStep (Num x) ctx s = s)
   \<and> (\<not> js_gt d (Num 0) \<longrightarrow> delayNextStep d ctx s = s)"
  by (simp add: delayNextStep_def js_gt_def)

theorem delayNextStep_nonpositive_ignored_witness:
  "delayNextStep (Num (- 5)) (fst (new_AnimationTimelineContext 0 [])) (snd (new_AnimationTimelineContext 0 []))
     = snd (new_AnimationTimelineContext 0 [])
   \<and> delayNextStep NaN (fst (new_AnimationTimelineContext 0 [])) (snd (new_AnimationTimelineContext 0 []))
     = snd (new_AnimationTimelineContext 0 [])
   \<and> delayNextStep (Num 5) (fst (new_AnimationTimelineContext 0 [])) (snd (new_AnimationTimelineContext 0 []))
     \<noteq> snd (new_AnimationTimelineContext 0 [])"
  using delayNextStep_nonpositive_ignored [of "- 5" "fst (new_AnimationTimelineContext 0 [])"
          "snd (new_AnimationTimelineContext 0 [])" NaN]
  by (simp add: eval_rules)


section \<open>Properties of setStyles\<close>

lemma upd_tl_length: "length (timelines (upd_tl j f s)) = length (timelines s)"
  by (simp add: upd_tl_def)

lemma upd_tl_errors: "errors (upd_tl j f s) = errors s"
  by (simp add: upd_tl_def)

lemma upd_tl_nth: "i < length (timelines s) \<Longrightarrow> timelines (upd_tl i f s) ! i = f (timelines s ! i)"
  by (simp add: upd_tl_def)

lemma upd_tl_frame:
  assumes "\<And>tb. g (f tb) = g tb"
  shows "g (timelines (upd_tl j f s) ! i) = g (timelines s ! i)"
  unfolding upd_tl_def using assms
  by (cases "j < length (timelines s)") (auto simp: nth_list_update list_update_beyond)

lemmas upd_tl_frames =
  upd_tl_frame [where g = keyframes] upd_tl_frame [where g = currentKeyframe]
  upd_tl_frame [where g = currentEmptyStepKeyframe]

lemma kf_update_cursor:
  "currentKeyframe (kf_update r f tb) = currentKeyframe tb"
  "currentEmptyStepKeyframe (kf_update r f tb) = currentEmptyStepKeyframe tb"
  "map fst (keyframes (kf_update r f tb)) = map fst (keyframes tb)"
  by (auto simp: kf_update_def split: option.splits)

lemma map_of_kf_map:
  "map_of (map (\<lambda>(t, kf). if t = k then (t, f kf) else (t, kf)) kfs) k = map_option f (map_of kfs k)"
  by (induction kfs) auto

lemma map_of_kf_map_keys:
  "(map_of (map (\<lambda>(t, kf). if t = k then (t, f kf) else (t, kf)) kfs) k' = None) = (map_of kfs k' = None)"
  by (induction kfs) (auto split: if_splits)

lemma kf_own_kf_update:
  "map_of (keyframes tb) k = Some kf0 \<Longrightarrow> kf_own (Some k) (kf_update (Some k) f tb) = f kf0"
  by (simp add: kf_own_def kf_update_def map_of_kf_map)

lemma kf_update_keys:
  "(map_of (keyframes (kf_update r f tb)) k = None) = (map_of (keyframes tb) k = None)"
  by (cases r) (simp_all add: kf_update_def map_of_kf_map_keys)

text \<open>The cursor of builder i: its current keyframe, its empty-step keyframe and the
  presence of a key.\<close>

lemma updateStyle_cursor:
  "length (timelines (updateStyle j p v s)) = length (timelines s)"
  "keyframes (timelines (updateStyle j p v s) ! i) = keyframes (timelines s ! i)"
  "currentKeyframe (timelines (updateStyle j p v s) ! i) = currentKeyframe (timelines s ! i)"
  "currentEmptyStepKeyframe (timelines (updateStyle j p v s) ! i) = currentEmptyStepKeyframe (timelines s ! i)"
  by (simp_all add: updateStyle_def Let_def upd_tl_length upd_tl_frames)

lemma empty_step_prop_cursor:
  "length (timelines (empty_step_prop j p s)) = length (timelines s)"
  "currentKeyframe (timelines (empty_step_prop j p s) ! i) = currentKeyframe (timelines s ! i)"
  "currentEmptyStepKeyframe (timelines (empty_step_prop j p s) ! i) = currentEmptyStepKeyframe (timelines s ! i)"
  by (simp_all add: empty_step_prop_def Let_def upd_tl_length upd_tl_frames kf_update_cursor)

lemma fold_empty_step_cursor:
  "length (timelines (fold (empty_step_prop j) ps s)) = length (timelines s)
   \<and> currentKeyframe (timelines (fold (empty_step_prop j) ps s) ! i) = currentKeyframe (timelines s ! i)
   \<and> currentEmptyStepKeyframe (timelines (fold (empty_step_prop j) ps s) ! i)
       = currentEmptyStepKeyframe (timelines s ! i)"
  by (induction ps arbitrary: s) (simp_all add: empty_step_prop_cursor)

lemma empty_step_prop_keys:
  "(map_of (keyframes (timelines (empty_step_prop j p s) ! i)) k = None)
     = (map_of (keyframes (timelines s ! i)) k = None)"
proof (cases "j < length (timelines s) \<and> i = j")
  case True
  then show ?thesis
    by (simp add: empty_step_prop_def Let_def upd_tl_nth kf_update_keys)
next
  case False
  then show ?thesis
    by (cases "j < length (timelines s)")
       (auto simp: empty_step_prop_def Let_def upd_tl_def nth_list_update list_update_beyond)
qed

lemma fold_empty_step_keys:
  "(map_of (keyframes (timelines (fold (empty_step_prop j) ps s) ! i)) k = None)
     = (map_of (keyframes (timelines s ! i)) k = None)"
  by (induction ps arbitrary: s) (simp_all add: empty_step_prop_keys)


lemma map_of_obj_set_eq: "map_of (obj_set a x m) b = (if a = b then Some x else map_of m b)"
  by (simp add: obj_set_def update_conv')

lemma complete_step_keeps:
  assumes "currentKeyframe t = Some k" and "map_of (kf_own (Some k) t) p = Some val"
  shows "currentKeyframe
           (if \<not> hasOwnProperty (kf_own (currentKeyframe t) t) pr
            then kf_update (currentKeyframe t) (obj_set pr v) t else t) = Some k
     \<and> currentEmptyStepKeyframe
           (if \<not> hasOwnProperty (kf_own (currentKeyframe t) t) pr
            then kf_update (currentKeyframe t) (obj_set pr v) t else t) = currentEmptyStepKeyframe t
     \<and> map_of (kf_own (Some k)
           (if \<not> hasOwnProperty (kf_own (currentKeyframe t) t) pr
            then kf_update (currentKeyframe t) (obj_set pr v) t else t)) p = Some val"
proof (cases "pr = p")
  case True
  then show ?thesis
    using assms by (simp add: hasOwnProperty_def)
next
  case False
  obtain kf0 where kf0: "map_of (keyframes t) k = Some kf0"
    using assms(2) by (cases "map_of (keyframes t) k") (simp_all add: kf_own_def)
  then have own: "kf_own (Some k) t = kf0"
    by (simp add: kf_own_def)
  show ?thesis
    using assms False kf0 own
    by (simp add: kf_update_cursor kf_own_kf_update map_of_obj_set_eq)
qed

lemma fold_complete_keeps:
  assumes "currentKeyframe t = Some k" and "map_of (kf_own (Some k) t) p = Some val"
  shows "currentKeyframe
           (fold (\<lambda>(pr, v) t.
                    if \<not> hasOwnProperty (kf_own (currentKeyframe t) t) pr
                    then kf_update (currentKeyframe t) (obj_set pr v) t else t) ls t) = Some k
     \<and> currentEmptyStepKeyframe
           (fold (\<lambda>(pr, v) t.
                    if \<not> hasOwnProperty (kf_own (currentKeyframe t) t) pr
                    then kf_update (currentKeyframe t) (obj_set pr v) t else t) ls t)
         = currentEmptyStepKeyframe t
     \<and> map_of (kf_own (Some k)
           (fold (\<lambda>(pr, v) t.
                    if \<not> hasOwnProperty (kf_own (currentKeyframe t) t) pr
                    then kf_update (currentKeyframe t) (obj_set pr v) t else t) ls t)) p = Some val"
  using assms
proof (induction ls arbitrary: t)
  case Nil
  then show ?case by simp
next
  case (Cons pv ls)
  obtain pr v where pv: "pv = (pr, v)" by (cases pv)
  let ?t1 = "if \<not> hasOwnProperty (kf_own (currentKeyframe t) t) pr
             then kf_update (currentKeyframe t) (obj_set pr v) t else t"
  have step: "currentKeyframe ?t1 = Some k"
    "currentEmptyStepKeyframe ?t1 = currentEmptyStepKeyframe t"
    "map_of (kf_own (Some k) ?t1) p = Some val"
    using complete_step_keeps [OF Cons.prems, of pr v] by blast+
  show ?case
    using Cons.IH [OF step(1) step(3)] step(2) by (simp add: pv)
qed

lemma complete_current_keeps:
  assumes "currentKeyframe tb = Some k" and "map_of (kf_own (Some k) tb) p = Some val"
  shows "currentKeyframe (complete_current tb) = Some k"
    and "currentEmptyStepKeyframe (complete_current tb) = currentEmptyStepKeyframe tb"
    and "map_of (kf_own (Some k) (complete_current tb)) p = Some val"
  using fold_complete_keeps [OF assms, of "localTimelineStyles tb"]
  by (simp_all add: complete_current_def)

lemma set_style_prop_result:
  assumes "i < length (timelines s)" and "currentKeyframe (timelines s ! i) = Some k"
    and "map_of (keyframes (timelines s ! i)) k = Some kf0"
  shows "length (timelines (set_style_prop nts i l (p, v) s)) = length (timelines s)"
    and "currentKeyframe (timelines (set_style_prop nts i l (p, v) s) ! i) = Some k"
    and "currentEmptyStepKeyframe (timelines (set_style_prop nts i l (p, v) s) ! i)
           = currentEmptyStepKeyframe (timelines s ! i)"
    and "kf_own (Some k) (timelines (set_style_prop nts i l (p, v) s) ! i)
           = obj_set p (case l of Some loc \<Rightarrow> fst (interpolateLocals nts v loc (errors s)) | None \<Rightarrow> v) kf0"
proof -
  let ?val = "case l of Some loc \<Rightarrow> fst (interpolateLocals nts v loc (errors s)) | None \<Rightarrow> v"
  let ?errs = "case l of Some loc \<Rightarrow> snd (interpolateLocals nts v loc (errors s)) | None \<Rightarrow> errors s"
  let ?s1 = "upd_tl i (\<lambda>tb. kf_update (currentKeyframe tb) (obj_set p ?val) tb) (s\<lparr>errors := ?errs\<rparr>)"
  have vs: "(case l of Some loc \<Rightarrow> interpolateLocals nts v loc (errors s) | None \<Rightarrow> (v, errors s))
        = (?val, ?errs)"
    by (cases l) simp_all
  have len1: "i < length (timelines (s\<lparr>errors := ?errs\<rparr>))"
    using assms(1) by simp
  have tb1: "timelines ?s1 ! i = kf_update (Some k) (obj_set p ?val) (timelines s ! i)"
    using assms(2) by (simp add: upd_tl_nth [OF len1])
  have k1: "keyframes (timelines ?s1 ! i) = keyframes (kf_update (Some k) (obj_set p ?val) (timelines s ! i))"
    and c1: "currentKeyframe (timelines ?s1 ! i) = Some k"
    and e1: "currentEmptyStepKeyframe (timelines ?s1 ! i) = currentEmptyStepKeyframe (timelines s ! i)"
    and l1: "length (timelines ?s1) = length (timelines s)"
    using assms(2) by (simp_all add: tb1 kf_update_cursor upd_tl_length)
  have res: "set_style_prop nts i l (p, v) s
      = updateStyle i p ?val
          (if \<not> val_truthy (local_get (timelines ?s1 ! i) p) then
             upd_tl i (\<lambda>tb. tb\<lparr>backFill := obj_set p
                 (if hasOwnProperty (global_own ?s1 i) p
                  then (case global_get ?s1 i p of Some v \<Rightarrow> v | None \<Rightarrow> AUTO_STYLE)
                  else AUTO_STYLE) (backFill tb)\<rparr>) ?s1
           else ?s1)"
    by (cases l) (simp_all add: set_style_prop_def Let_def split_beta)
  show "length (timelines (set_style_prop nts i l (p, v) s)) = length (timelines s)"
    unfolding res by (simp add: updateStyle_cursor upd_tl_length l1)
  show "currentKeyframe (timelines (set_style_prop nts i l (p, v) s) ! i) = Some k"
    unfolding res by (simp add: updateStyle_cursor upd_tl_frames c1)
  show "currentEmptyStepKeyframe (timelines (set_style_prop nts i l (p, v) s) ! i)
           = currentEmptyStepKeyframe (timelines s ! i)"
    unfolding res by (simp add: updateStyle_cursor upd_tl_frames e1)
  have "keyframes (timelines (set_style_prop nts i l (p, v) s) ! i)
      = keyframes (kf_update (Some k) (obj_set p ?val) (timelines s ! i))"
    unfolding res by (simp add: updateStyle_cursor upd_tl_frames k1)
  then show "kf_own (Some k) (timelines (set_style_prop nts i l (p, v) s) ! i) = obj_set p ?val kf0"
    using assms(3) by (simp add: kf_own_def kf_update_def map_of_kf_map)
qed


lemma set_previous_easing_cursor:
  "length (timelines (set_previous_easing j eas s)) = length (timelines s)"
  "errors (set_previous_easing j eas s) = errors s"
  "currentKeyframe (timelines (set_previous_easing j eas s) ! i) = currentKeyframe (timelines s ! i)"
  "currentEmptyStepKeyframe (timelines (set_previous_easing j eas s) ! i)
     = currentEmptyStepKeyframe (timelines s ! i)"
  by (simp_all add: set_previous_easing_def upd_tl_length upd_tl_errors upd_tl_frames
        kf_update_cursor split: option.splits)

lemma set_previous_easing_keys:
  "(map_of (keyframes (timelines (set_previous_easing j eas s) ! i)) k = None)
     = (map_of (keyframes (timelines s ! i)) k = None)"
proof (cases "j < length (timelines s) \<and> i = j")
  case True
  then show ?thesis
    by (simp add: set_previous_easing_def upd_tl_nth kf_update_keys split: option.splits)
next
  case False
  then show ?thesis
    by (cases "j < length (timelines s)")
       (auto simp: set_previous_easing_def upd_tl_def nth_list_update list_update_beyond
             split: option.splits)
qed

lemma setStyles_empty_step:
  assumes "i < length (timelines s)" and "currentKeyframe (timelines s ! i) = Some k"
  shows "length (timelines (setStyles nts i input eas True l s)) = length (timelines s)"
    and "currentKeyframe (timelines (setStyles nts i input eas True l s) ! i) = Some k"
    and "currentEmptyStepKeyframe (timelines (setStyles nts i input eas True l s) ! i) = Some k"
    and "(map_of (keyframes (timelines (setStyles nts i input eas True l s) ! i)) k = None)
           = (map_of (keyframes (timelines s ! i)) k = None)"
proof -
  let ?s0 = "set_previous_easing i eas s"
  let ?s1 = "fold (empty_step_prop i) (obj_keys (global_own ?s0 i)) ?s0"
  have res: "setStyles nts i input eas True l s
      = upd_tl i (\<lambda>tb. tb\<lparr>currentEmptyStepKeyframe := currentKeyframe tb\<rparr>) ?s1"
    by (simp add: setStyles_def Let_def)
  have len: "i < length (timelines ?s1)"
    using assms(1) fold_empty_step_cursor [of i _ ?s0 i]
    by (simp add: set_previous_easing_cursor)
  have cur: "currentKeyframe (timelines ?s1 ! i) = Some k"
    using assms(2) fold_empty_step_cursor [of i _ ?s0 i]
    by (simp add: set_previous_easing_cursor)
  show "length (timelines (setStyles nts i input eas True l s)) = length (timelines s)"
    unfolding res using fold_empty_step_cursor [of i _ ?s0 i]
    by (simp add: upd_tl_length set_previous_easing_cursor)
  show "currentKeyframe (timelines (setStyles nts i input eas True l s) ! i) = Some k"
    unfolding res by (simp add: upd_tl_nth [OF len] cur)
  show "currentEmptyStepKeyframe (timelines (setStyles nts i input eas True l s) ! i) = Some k"
    unfolding res by (simp add: upd_tl_nth [OF len] cur)
  show "(map_of (keyframes (timelines (setStyles nts i input eas True l s) ! i)) k = None)
           = (map_of (keyframes (timelines s ! i)) k = None)"
    unfolding res
    by (simp add: upd_tl_nth [OF len] fold_empty_step_keys set_previous_easing_keys)
qed

lemma setStyles_explicit:
  assumes "i < length (timelines s)" and "currentKeyframe (timelines s ! i) = Some k"
    and "map_of (keyframes (timelines s ! i)) k \<noteq> None"
  shows "currentKeyframe (timelines (setStyles nts i [Styles [(p, v)]] eas False l s) ! i) = Some k"
    and "currentEmptyStepKeyframe (timelines (setStyles nts i [Styles [(p, v)]] eas False l s) ! i)
           = currentEmptyStepKeyframe (timelines s ! i)"
    and "map_of (kf_own (Some k) (timelines (setStyles nts i [Styles [(p, v)]] eas False l s) ! i)) p
           = Some (case l of Some loc \<Rightarrow> fst (interpolateLocals nts v loc (errors s)) | None \<Rightarrow> v)"
proof -
  let ?s0 = "set_previous_easing i eas s"
  let ?s1 = "set_style_prop nts i l (p, v) ?s0"
  let ?val = "case l of Some loc \<Rightarrow> fst (interpolateLocals nts v loc (errors s)) | None \<Rightarrow> v"
  have res: "setStyles nts i [Styles [(p, v)]] eas False l s = upd_tl i complete_current ?s1"
    by (simp add: setStyles_def Let_def flattenStyles_def copyObj_def obj_set_def)
  have len0: "i < length (timelines ?s0)" and cur0: "currentKeyframe (timelines ?s0 ! i) = Some k"
    using assms(1,2) by (simp_all add: set_previous_easing_cursor)
  obtain kf0 where kf0: "map_of (keyframes (timelines ?s0 ! i)) k = Some kf0"
    using assms(3) set_previous_easing_keys [of i eas s i k] by auto
  have er: "errors ?s0 = errors s"
    by (simp add: set_previous_easing_cursor)
  note r = set_style_prop_result [OF len0 cur0 kf0, of nts l p v, unfolded er]
  have len1: "i < length (timelines ?s1)"
    using r(1) len0 by simp
  have own1: "map_of (kf_own (Some k) (timelines ?s1 ! i)) p = Some ?val"
    using r(4) by (simp add: map_of_obj_set_eq)
  note c = complete_current_keeps [OF r(2) own1]
  show "currentKeyframe (timelines (setStyles nts i [Styles [(p, v)]] eas False l s) ! i) = Some k"
    unfolding res by (simp add: upd_tl_nth [OF len1] c(1))
  show "currentEmptyStepKeyframe (timelines (setStyles nts i [Styles [(p, v)]] eas False l s) ! i)
           = currentEmptyStepKeyframe (timelines s ! i)"
    unfolding res by (simp add: upd_tl_nth [OF len1] c(2) r(3) set_previous_easing_cursor)
  show "map_of (kf_own (Some k) (timelines (setStyles nts i [Styles [(p, v)]] eas False l s) ! i)) p
           = Some ?val"
    unfolding res by (simp add: upd_tl_nth [OF len1] c(3))
qed

text \<open>
  C6. On a builder of the store whose current keyframe is a keyframe of its map:
  after \<open>setStyles\<close> with \<open>treatAsEmptyStep\<close>, the current keyframe is the empty-step
  keyframe and \<open>allowOnlyTimelineStyles()\<close> is false. A following \<open>setStyles\<close> with the
  explicit style \<open>{p: v}\<close> leaves the cursor on that keyframe, writes the value (after
  the interpolation of the locals, when there are locals) into the keyframe as its own
  property \<open>p\<close>, and \<open>allowOnlyTimelineStyles()\<close> is still false.
\<close>

theorem empty_step_then_explicit_style:
  assumes "i < length (timelines s)" and "currentKeyframe (timelines s ! i) = Some k"
    and "map_of (keyframes (timelines s ! i)) k \<noteq> None"
  shows "let s1 = setStyles nts i input eas1 True l1 s;
             s2 = setStyles nts i [Styles [(p, v)]] eas2 False l2 s1
         in currentEmptyStepKeyframe (timelines s1 ! i) = Some k
            \<and> \<not> allowOnlyTimelineStyles (timelines s1 ! i)
            \<and> currentKeyframe (timelines s2 ! i) = Some k
            \<and> map_of (kf_own (currentKeyframe (timelines s2 ! i)) (timelines s2 ! i)) p
                 = Some (case l2 of Some loc \<Rightarrow> fst (interpolateLocals nts v loc (errors s1))
                         | None \<Rightarrow> v)
            \<and> \<not> allowOnlyTimelineStyles (timelines s2 ! i)"
proof -
  let ?s1 = "setStyles nts i input eas1 True l1 s"
  let ?s2 = "setStyles nts i [Styles [(p, v)]] eas2 False l2 ?s1"
  note e = setStyles_empty_step [OF assms(1,2), of nts input eas1 l1]
  have len1: "i < length (timelines ?s1)"
    using e(1) assms(1) by simp
  have key1: "map_of (keyframes (timelines ?s1 ! i)) k \<noteq> None"
    using e(4) assms(3) by simp
  note x = setStyles_explicit [OF len1 e(2) key1, of nts p v eas2 l2]
  have a1: "\<not> allowOnlyTimelineStyles (timelines ?s1 ! i)"
    by (simp add: allowOnlyTimelineStyles_def e(2) e(3))
  have a2: "\<not> allowOnlyTimelineStyles (timelines ?s2 ! i)"
    by (simp add: allowOnlyTimelineStyles_def x(1) x(2) e(3))
  show ?thesis
    using e(3) a1 a2 x(1) x(3) by (simp add: Let_def)
qed

theorem empty_step_then_explicit_style_witness:
  "allowOnlyTimelineStyles (timelines
     \<lparr>timelines =
          [\<lparr>tb_element = 0, startTime = Num 0, tb_duration = Num 0, tb_easing = None,
             previousKeyframe = None, currentKeyframe = Some (Num 0),
             keyframes = [(Num 0, [(''width'', NumV (Num 100))])],
             styleSummary = [(''width'', \<lparr>sat_time = Num 0, sat_value = NumV (Num 100)\<rparr>)],
             localTimelineStyles = [(''width'', NumV (Num 100))],
             globalTimelineStyles = 0, backFill = [(''width'', StrV ''*'')],
             currentEmptyStepKeyframe = None\<rparr>],
        lookup = [(0, 0)], errors = []\<rparr> ! 0)
   \<and> \<not> allowOnlyTimelineStyles (timelines (setStyles (\<lambda>n. []) 0 [Styles []] None True None
     \<lparr>timelines =
          [\<lparr>tb_element = 0, startTime = Num 0, tb_duration = Num 0, tb_easing = None,
             previousKeyframe = None, currentKeyframe = Some (Num 0),
             keyframes = [(Num 0, [(''width'', NumV (Num 100))])],
             styleSummary = [(''width'', \<lparr>sat_time = Num 0, sat_value = NumV (Num 100)\<rparr>)],
             localTimelineStyles = [(''width'', NumV (Num 100))],
             globalTimelineStyles = 0, backFill = [(''width'', StrV ''*'')],
             currentEmptyStepKeyframe = None\<rparr>],
        lookup = [(0, 0)], errors = []\<rparr>) ! 0)
   \<and> kf_own (Some (Num 0)) (timelines
       (setStyles (\<lambda>n. []) 0 [Styles [(''height'', NumV (Num 5))]] None False None
         (setStyles (\<lambda>n. []) 0 [Styles []] None True None
     \<lparr>timelines =
          [\<lparr>tb_element = 0, startTime = Num 0, tb_duration = Num 0, tb_easing = None,
             previousKeyframe = None, currentKeyframe = Some (Num 0),
             keyframes = [(Num 0, [(''width'', NumV (Num 100))])],
             styleSummary = [(''width'', \<lparr>sat_time = Num 0, sat_value = NumV (Num 100)\<rparr>)],
             localTimelineStyles = [(''width'', NumV (Num 100))],
             globalTimelineStyles = 0, backFill = [(''width'', StrV ''*'')],
             currentEmptyStepKeyframe = None\<rparr>],
        lookup = [(0, 0)], errors = []\<rparr>)) ! 0)
     = [(''width'', StrV ''*''), (''height'', NumV (Num 5))]
   \<and> \<not> allowOnlyTimelineStyles (timelines
       (setStyles (\<lambda>n. []) 0 [Styles [(''height'', NumV (Num 5))]] None False None
         (setStyles (\<lambda>n. []) 0 [Styles []] None True None
     \<lparr>timelines =
          [\<lparr>tb_element = 0, startTime = Num 0, tb_duration = Num 0, tb_easing = None,
             previousKeyframe = None, currentKeyframe = Some (Num 0),
             keyframes = [(Num 0, [(''width'', NumV (Num 100))])],
             styleSummary = [(''width'', \<lparr>sat_time = Num 0, sat_value = NumV (Num 100)\<rparr>)],
             localTimelineStyles = [(''width'', NumV (Num 100))],
             globalTimelineStyles = 0, backFill = [(''width'', StrV ''*'')],
             currentEmptyStepKeyframe = None\<rparr>],
        lookup = [(0, 0)], errors = []\<rparr>)) ! 0)"
  using empty_step_then_explicit_style [of 0
     "\<lparr>timelines =
          [\<lparr>tb_element = 0, startTime = Num 0, tb_duration = Num 0, tb_easing = None,
             previousKeyframe = None, currentKeyframe = Some (Num 0),
             keyframes = [(Num 0, [(''width'', NumV (Num 100))])],
             styleSummary = [(''width'', \<lparr>sat_time = Num 0, sat_value = NumV (Num 100)\<rparr>)],
             localTimelineStyles = [(''width'', NumV (Num 100))],
             globalTimelineStyles = 0, backFill = [(''width'', StrV ''*'')],
             currentEmptyStepKeyframe = None\<rparr>],
        lookup = [(0, 0)], errors = []\<rparr>"
     "Num 0" "\<lambda>n. []" "[Styles []]" None None "''height''" "NumV (Num 5)" None None]
  by (simp add: eval_rules)


end
